theory Spec2Isabelle
  imports Main
begin

section \<open>JavaScript \<open>Map\<close> objects\<close>

text \<open>
  A JavaScript \<open>Map\<close> iterates in insertion order, \<open>set\<close> on a key that is present
  replaces the value in place, and \<open>delete\<close> removes the entry. The registries of the
  signaling servers and the connection tables of the clients are such maps; they are
  modelled as association lists, so that \<open>forEach\<close>, \<open>keys()\<close> and \<open>values()\<close> see the
  entries in the order the program sees them.
\<close>

fun Map_set :: "'k \<Rightarrow> 'v \<Rightarrow> ('k \<times> 'v) list \<Rightarrow> ('k \<times> 'v) list" where
  "Map_set k v [] = [(k, v)]"
| "Map_set k v ((k', v') # m) = (if k' = k then (k, v) # m else (k', v') # Map_set k v m)"

definition Map_get :: "('k \<times> 'v) list \<Rightarrow> 'k \<Rightarrow> 'v option" where
  "Map_get m k = map_of m k"

definition Map_has :: "('k \<times> 'v) list \<Rightarrow> 'k \<Rightarrow> bool" where
  "Map_has m k = (map_of m k \<noteq> None)"

definition Map_delete :: "'k \<Rightarrow> ('k \<times> 'v) list \<Rightarrow> ('k \<times> 'v) list" where
  "Map_delete k m = filter (\<lambda>kv. fst kv \<noteq> k) m"

definition Map_keys :: "('k \<times> 'v) list \<Rightarrow> 'k list" where
  "Map_keys m = map fst m"

definition Map_values :: "('k \<times> 'v) list \<Rightarrow> 'v list" where
  "Map_values m = map snd m"

definition Map_size :: "('k \<times> 'v) list \<Rightarrow> nat" where
  "Map_size m = length m"

text \<open>A WebSocket is identified by a number; \<open>readyState === WebSocket.OPEN\<close> is
  membership in the set of open sockets, which the environment changes.\<close>

type_synonym socket = nat

text \<open>JavaScript truthiness of a value that is \<open>null\<close> or a string: \<open>null\<close> and the
  empty string are falsy. \<open>a || d\<close> is \<open>d\<close> when \<open>a\<close> is falsy.\<close>

definition truthy :: "string option \<Rightarrow> bool" where
  "truthy v = (case v of None \<Rightarrow> False | Some x \<Rightarrow> x \<noteq> [])"

definition or_default :: "string option \<Rightarrow> string \<Rightarrow> string" where
  "or_default v d = (case v of None \<Rightarrow> d | Some x \<Rightarrow> if x = [] then d else x)"

section \<open>Mesh signaling server of the group video call (port 3000)\<close>

record Peer =
  peerId :: string
  ws :: socket

datatype sigkind = offer | answer | ice_candidate

text \<open>Inbound envelopes. A signal carries its kind, the addressee \<open>to\<close> and the rest of
  the envelope, which the relay never inspects.\<close>

datatype mesh_in =
    Join string string
  | Signal sigkind string string
  | Unknown

datatype mesh_out =
    RoomPeers "string list"
  | PeerJoined string
  | PeerLeft string
  | Forwarded mesh_in

datatype mesh_log =
    LogJoined string string nat
  | LogLeft string string nat

record mesh_server =
  rooms :: "string \<rightharpoonup> (string \<times> Peer) list"
  openSockets :: "socket set"
  sent :: "(socket \<times> mesh_out) list"
  logs :: "mesh_log list"

text \<open>The variables each connection's closure captures.\<close>

record mesh_conn =
  currentRoomId :: "string option"
  currentPeerId :: "string option"

definition forwardToPeer :: "string option \<Rightarrow> string \<Rightarrow> mesh_out \<Rightarrow> mesh_server \<Rightarrow> mesh_server" where
  "forwardToPeer roomId toPeerId message s =
     (case roomId of
        None \<Rightarrow> s
      | Some r \<Rightarrow>
        (case rooms s r of
           None \<Rightarrow> s
         | Some room \<Rightarrow>
           (case Map_get room toPeerId of
              None \<Rightarrow> s
            | Some peer \<Rightarrow>
                if ws peer \<in> openSockets s
                then s\<lparr>sent := sent s @ [(ws peer, message)]\<rparr>
                else s)))"

definition broadcast :: "string \<Rightarrow> mesh_out \<Rightarrow> string \<Rightarrow> mesh_server \<Rightarrow> mesh_server" where
  "broadcast roomId message excludePeerId s =
     (case rooms s roomId of
        None \<Rightarrow> s
      | Some room \<Rightarrow>
          s\<lparr>sent := sent s @
                map (\<lambda>peer. (ws peer, message))
                  (filter (\<lambda>peer. peerId peer \<noteq> excludePeerId \<and> ws peer \<in> openSockets s)
                     (Map_values room))\<rparr>)"

definition join :: "socket \<Rightarrow> string \<Rightarrow> string \<Rightarrow> mesh_conn \<times> mesh_server \<Rightarrow> mesh_conn \<times> mesh_server" where
  "join w roomId pid cs =
     (let c = fst cs; s = snd cs;
          c1 = c\<lparr>currentRoomId := Some roomId, currentPeerId := Some pid\<rparr>;
          s1 = (if rooms s roomId = None then s\<lparr>rooms := (rooms s)(roomId \<mapsto> [])\<rparr> else s);
          room = (case rooms s1 roomId of None \<Rightarrow> [] | Some r \<Rightarrow> r);
          existingPeers = Map_keys room;
          room1 = Map_set pid \<lparr>peerId = pid, ws = w\<rparr> room;
          s2 = s1\<lparr>rooms := (rooms s1)(roomId \<mapsto> room1)\<rparr>;
          s3 = s2\<lparr>sent := sent s2 @ [(w, RoomPeers existingPeers)]\<rparr>;
          s4 = broadcast roomId (PeerJoined pid) pid s3;
          s5 = s4\<lparr>logs := logs s4 @ [LogJoined pid roomId (Map_size room1)]\<rparr>
      in (c1, s5))"

definition on_message :: "socket \<Rightarrow> mesh_in \<Rightarrow> mesh_conn \<times> mesh_server \<Rightarrow> mesh_conn \<times> mesh_server" where
  "on_message w message cs =
     (case message of
        Join roomId pid \<Rightarrow> join w roomId pid cs
      | Signal k to body \<Rightarrow>
          (fst cs, forwardToPeer (currentRoomId (fst cs)) to (Forwarded message) (snd cs))
      | Unknown \<Rightarrow> cs)"


section \<open>Mesh signaling server of the expanded video call (port 3001)\<close>

record PeerInfo =
  x_peerId :: string
  x_username :: string
  x_ws :: socket
  x_isScreenSharing :: bool

datatype x_out =
    XRoomPeers "(string \<times> string \<times> bool) list"
  | XPeerJoined string string

datatype x_log = XLogJoined string string string nat

record x_server =
  x_rooms :: "string \<rightharpoonup> (string \<times> PeerInfo) list"
  x_openSockets :: "socket set"
  x_sent :: "(socket \<times> x_out) list"
  x_logs :: "x_log list"

record x_conn =
  x_currentRoomId :: "string option"
  x_currentPeerId :: "string option"
  x_currentUsername :: string

definition x_broadcast :: "string \<Rightarrow> x_out \<Rightarrow> string \<Rightarrow> x_server \<Rightarrow> x_server" where
  "x_broadcast roomId message excludePeerId s =
     (case x_rooms s roomId of
        None \<Rightarrow> s
      | Some room \<Rightarrow>
          s\<lparr>x_sent := x_sent s @
                map (\<lambda>peer. (x_ws peer, message))
                  (filter (\<lambda>peer. x_peerId peer \<noteq> excludePeerId \<and> x_ws peer \<in> x_openSockets s)
                     (Map_values room))\<rparr>)"

definition x_join :: "socket \<Rightarrow> string \<Rightarrow> string \<Rightarrow> string option \<Rightarrow> x_conn \<times> x_server \<Rightarrow> x_conn \<times> x_server" where
  "x_join w roomId pid username cs =
     (let c = fst cs; s = snd cs;
          c1 = c\<lparr>x_currentRoomId := Some roomId, x_currentPeerId := Some pid,
                 x_currentUsername := or_default username ''Anonymous''\<rparr>;
          s1 = (if x_rooms s roomId = None then s\<lparr>x_rooms := (x_rooms s)(roomId \<mapsto> [])\<rparr> else s);
          room = (case x_rooms s1 roomId of None \<Rightarrow> [] | Some r \<Rightarrow> r);
          existingPeers = map (\<lambda>p. (x_peerId p, x_username p, x_isScreenSharing p)) (Map_values room);
          room1 = Map_set pid \<lparr>x_peerId = pid, x_username = x_currentUsername c1, x_ws = w,
                                x_isScreenSharing = False\<rparr> room;
          s2 = s1\<lparr>x_rooms := (x_rooms s1)(roomId \<mapsto> room1)\<rparr>;
          s3 = s2\<lparr>x_sent := x_sent s2 @ [(w, XRoomPeers existingPeers)]\<rparr>;
          s4 = x_broadcast roomId (XPeerJoined pid (x_currentUsername c1)) pid s3;
          s5 = s4\<lparr>x_logs := x_logs s4 @ [XLogJoined pid (x_currentUsername c1) roomId (Map_size room1)]\<rparr>
      in (c1, s5))"

section \<open>Star signaling server of the broadcast example (port 3002)\<close>

record BroadcasterInfo =
  bc_peerId :: string
  bc_username :: string
  bc_ws :: socket

record ViewerInfo =
  v_peerId :: string
  v_username :: string
  v_ws :: socket

record BroadcastRoom =
  broadcastId :: string
  broadcaster :: "BroadcasterInfo option"
  viewers :: "(string \<times> ViewerInfo) list"
  isLive :: bool

datatype role = Broadcaster | Viewer

text \<open>Inbound envelopes of the broadcast relay; \<open>username\<close> may be absent.\<close>

datatype b_in =
    CreateBroadcast string "string option"
  | StartBroadcast string
  | EndBroadcast string
  | JoinBroadcast string string "string option"
  | LeaveBroadcast string string
  | OfferTo string string
  | AnswerTo string string
  | IceCandidateTo string string
  | ChatMessage string string
  | OtherType

text \<open>Outbound envelopes. \<open>from\<close> is the sender's \<open>currentPeerId\<close>, which is \<open>null\<close> on a
  connection that never created or joined a broadcast. The id of a chat message is the
  template \<open>${Date.now()}-${currentPeerId}\<close>, kept as the pair of its two parts.\<close>

datatype b_out =
    BroadcastCreated string
  | BroadcastStarted string
  | BroadcastEnded string
  | Error string
  | BroadcastInfo string bool string
  | ViewerJoined string string
  | ViewerCount nat
  | ViewerLeft string
  | OfferFrom "string option" string
  | AnswerFrom "string option" string
  | IceCandidateFrom "string option" string
  | Chat "nat \<times> string option" "string option" string string nat

datatype b_log =
    LogCreated string string string
  | LogLive string nat
  | LogEnded string
  | LogViewerJoined string string string nat
  | LogViewerLeft string string nat
  | LogBroadcasterDisconnected string string
  | LogViewerDisconnected string string nat
  | LogCleanedUp string

text \<open>The server state: the global \<open>broadcasts\<close> map, the sockets that are open, what has
  been sent and logged, the clock in milliseconds and the pending \<open>setTimeout\<close> callbacks,
  each with the time it is due and the broadcast id its closure captured.\<close>

record b_server =
  broadcasts :: "string \<rightharpoonup> BroadcastRoom"
  b_openSockets :: "socket set"
  b_sent :: "(socket \<times> b_out) list"
  b_logs :: "b_log list"
  clock :: nat
  timers :: "(nat \<times> string) list"

record b_conn =
  currentBroadcastId :: "string option"
  b_currentPeerId :: "string option"
  b_currentUsername :: string
  currentRole :: "role option"

definition b_send :: "socket \<Rightarrow> b_out \<Rightarrow> b_server \<Rightarrow> b_server" where
  "b_send w m s = s\<lparr>b_sent := b_sent s @ [(w, m)]\<rparr>"

definition b_log :: "b_log \<Rightarrow> b_server \<Rightarrow> b_server" where
  "b_log l s = s\<lparr>b_logs := b_logs s @ [l]\<rparr>"

text \<open>\<open>room.viewers.forEach\<close> sending one message to every viewer whose socket is open.\<close>

definition notify_viewers :: "BroadcastRoom \<Rightarrow> b_out \<Rightarrow> b_server \<Rightarrow> b_server" where
  "notify_viewers room m s =
     s\<lparr>b_sent := b_sent s @
          map (\<lambda>v. (v_ws v, m)) (filter (\<lambda>v. v_ws v \<in> b_openSockets s) (Map_values (viewers room)))\<rparr>"

text \<open>\<open>room.broadcaster && room.broadcaster.ws.readyState === WebSocket.OPEN\<close>, then the
  sends to the broadcaster.\<close>

definition to_broadcaster :: "BroadcastRoom \<Rightarrow> b_out list \<Rightarrow> b_server \<Rightarrow> b_server" where
  "to_broadcaster room ms s =
     (case broadcaster room of
        None \<Rightarrow> s
      | Some b \<Rightarrow>
          if bc_ws b \<in> b_openSockets s
          then s\<lparr>b_sent := b_sent s @ map (\<lambda>m. (bc_ws b, m)) ms\<rparr>
          else s)"

text \<open>\<open>room.broadcaster?.peerId === currentPeerId\<close>.\<close>

definition is_broadcaster_of :: "BroadcastRoom \<Rightarrow> b_conn \<Rightarrow> bool" where
  "is_broadcaster_of room c =
     (case broadcaster room of None \<Rightarrow> False | Some b \<Rightarrow> b_currentPeerId c = Some (bc_peerId b))"

definition create_broadcast :: "socket \<Rightarrow> string \<Rightarrow> string \<Rightarrow> string option \<Rightarrow> b_conn \<times> b_server \<Rightarrow> b_conn \<times> b_server" where
  "create_broadcast w newId pid username cs =
     (let c = fst cs; s = snd cs;
          c1 = c\<lparr>currentBroadcastId := Some newId, b_currentPeerId := Some pid,
                 b_currentUsername := or_default username ''Broadcaster'',
                 currentRole := Some Broadcaster\<rparr>;
          room = \<lparr>broadcastId = newId,
                  broadcaster = Some \<lparr>bc_peerId = pid, bc_username = b_currentUsername c1, bc_ws = w\<rparr>,
                  viewers = [], isLive = False\<rparr>;
          s1 = s\<lparr>broadcasts := (broadcasts s)(newId \<mapsto> room)\<rparr>;
          s2 = b_send w (BroadcastCreated newId) s1
      in (c1, b_log (LogCreated newId (b_currentUsername c1) pid) s2))"

definition start_broadcast :: "string \<Rightarrow> b_conn \<times> b_server \<Rightarrow> b_conn \<times> b_server" where
  "start_broadcast bid cs =
     (let c = fst cs; s = snd cs in
      case broadcasts s bid of
        None \<Rightarrow> cs
      | Some room \<Rightarrow>
          if is_broadcaster_of room c
          then (let room1 = room\<lparr>isLive := True\<rparr>;
                    s1 = s\<lparr>broadcasts := (broadcasts s)(bid \<mapsto> room1)\<rparr>;
                    s2 = notify_viewers room1 (BroadcastStarted bid) s1
                in (c, b_log (LogLive bid (Map_size (viewers room1))) s2))
          else cs)"

definition end_broadcast :: "string \<Rightarrow> b_conn \<times> b_server \<Rightarrow> b_conn \<times> b_server" where
  "end_broadcast bid cs =
     (let c = fst cs; s = snd cs in
      case broadcasts s bid of
        None \<Rightarrow> cs
      | Some room \<Rightarrow>
          if is_broadcaster_of room c
          then (let room1 = room\<lparr>isLive := False\<rparr>;
                    s1 = s\<lparr>broadcasts := (broadcasts s)(bid \<mapsto> room1)\<rparr>;
                    s2 = notify_viewers room1 (BroadcastEnded bid) s1
                in (c, b_log (LogEnded bid) s2))
          else cs)"

definition join_broadcast :: "socket \<Rightarrow> string \<Rightarrow> string \<Rightarrow> string option \<Rightarrow> b_conn \<times> b_server \<Rightarrow> b_conn \<times> b_server" where
  "join_broadcast w bid pid username cs =
     (let c = fst cs; s = snd cs in
      case broadcasts s bid of
        None \<Rightarrow> (c, b_send w (Error ''Broadcast not found'') s)
      | Some room \<Rightarrow>
          (let c1 = c\<lparr>currentBroadcastId := Some bid, b_currentPeerId := Some pid,
                       b_currentUsername := or_default username ''Viewer'',
                       currentRole := Some Viewer\<rparr>;
               room1 = room\<lparr>viewers := Map_set pid
                          \<lparr>v_peerId = pid, v_username = b_currentUsername c1, v_ws = w\<rparr> (viewers room)\<rparr>;
               s1 = s\<lparr>broadcasts := (broadcasts s)(bid \<mapsto> room1)\<rparr>;
               s2 = b_send w (BroadcastInfo bid (isLive room1)
                      (or_default (map_option bc_username (broadcaster room1)) ''Unknown'')) s1;
               s3 = to_broadcaster room1
                      [ViewerJoined pid (b_currentUsername c1), ViewerCount (Map_size (viewers room1))] s2
           in (c1, b_log (LogViewerJoined (b_currentUsername c1) pid bid (Map_size (viewers room1))) s3)))"

definition leave_broadcast :: "string \<Rightarrow> string \<Rightarrow> b_conn \<times> b_server \<Rightarrow> b_conn \<times> b_server" where
  "leave_broadcast bid pid cs =
     (let c = fst cs; s = snd cs in
      case broadcasts s bid of
        None \<Rightarrow> cs
      | Some room \<Rightarrow>
          (let room1 = room\<lparr>viewers := Map_delete pid (viewers room)\<rparr>;
               s1 = s\<lparr>broadcasts := (broadcasts s)(bid \<mapsto> room1)\<rparr>;
               s2 = to_broadcaster room1 [ViewerLeft pid, ViewerCount (Map_size (viewers room1))] s1
           in (c, b_log (LogViewerLeft (b_currentUsername c) bid (Map_size (viewers room1))) s2)))"

text \<open>The three relayed signals. \<open>broadcasts.get(currentBroadcastId!)\<close> finds no room when
  the connection never created or joined a broadcast.\<close>

definition current_room :: "b_conn \<Rightarrow> b_server \<Rightarrow> BroadcastRoom option" where
  "current_room c s = (case currentBroadcastId c of None \<Rightarrow> None | Some bid \<Rightarrow> broadcasts s bid)"

definition to_viewer :: "BroadcastRoom \<Rightarrow> string \<Rightarrow> b_out \<Rightarrow> b_server \<Rightarrow> b_server" where
  "to_viewer room to m s =
     (case Map_get (viewers room) to of
        None \<Rightarrow> s
      | Some viewer \<Rightarrow> if v_ws viewer \<in> b_openSockets s then b_send (v_ws viewer) m s else s)"

definition relay_offer :: "string \<Rightarrow> string \<Rightarrow> b_conn \<times> b_server \<Rightarrow> b_conn \<times> b_server" where
  "relay_offer to sdp cs =
     (let c = fst cs; s = snd cs in
      case current_room c s of
        None \<Rightarrow> cs
      | Some room \<Rightarrow> (c, to_viewer room to (OfferFrom (b_currentPeerId c) sdp) s))"

definition relay_answer :: "string \<Rightarrow> string \<Rightarrow> b_conn \<times> b_server \<Rightarrow> b_conn \<times> b_server" where
  "relay_answer to sdp cs =
     (let c = fst cs; s = snd cs in
      case current_room c s of
        None \<Rightarrow> cs
      | Some room \<Rightarrow> (c, to_broadcaster room [AnswerFrom (b_currentPeerId c) sdp] s))"

definition relay_ice_candidate :: "string \<Rightarrow> string \<Rightarrow> b_conn \<times> b_server \<Rightarrow> b_conn \<times> b_server" where
  "relay_ice_candidate to candidate cs =
     (let c = fst cs; s = snd cs in
      case current_room c s of
        None \<Rightarrow> cs
      | Some room \<Rightarrow>
          if currentRole c = Some Broadcaster
          then (c, to_viewer room to (IceCandidateFrom (b_currentPeerId c) candidate) s)
          else (c, to_broadcaster room [IceCandidateFrom (b_currentPeerId c) candidate] s))"

definition chat_message :: "string \<Rightarrow> string \<Rightarrow> b_conn \<times> b_server \<Rightarrow> b_conn \<times> b_server" where
  "chat_message bid text cs =
     (let c = fst cs; s = snd cs in
      case broadcasts s bid of
        None \<Rightarrow> cs
      | Some room \<Rightarrow>
          (let chatMsg = Chat (clock s, b_currentPeerId c) (b_currentPeerId c) (b_currentUsername c)
                              text (clock s);
               s1 = to_broadcaster room [chatMsg] s
           in (c, notify_viewers room chatMsg s1)))"

text \<open>The \<open>message\<close> handler of one connection. \<open>newId\<close> is what \<open>generateBroadcastId()\<close>
  returns when the envelope is \<open>create-broadcast\<close>.\<close>

definition b_on_message :: "socket \<Rightarrow> string \<Rightarrow> b_in \<Rightarrow> b_conn \<times> b_server \<Rightarrow> b_conn \<times> b_server" where
  "b_on_message w newId message cs =
     (case message of
        CreateBroadcast pid username \<Rightarrow> create_broadcast w newId pid username cs
      | StartBroadcast bid \<Rightarrow> start_broadcast bid cs
      | EndBroadcast bid \<Rightarrow> end_broadcast bid cs
      | JoinBroadcast bid pid username \<Rightarrow> join_broadcast w bid pid username cs
      | LeaveBroadcast bid pid \<Rightarrow> leave_broadcast bid pid cs
      | OfferTo to sdp \<Rightarrow> relay_offer to sdp cs
      | AnswerTo to sdp \<Rightarrow> relay_answer to sdp cs
      | IceCandidateTo to candidate \<Rightarrow> relay_ice_candidate to candidate cs
      | ChatMessage bid text \<Rightarrow> chat_message bid text cs
      | OtherType \<Rightarrow> cs)"

text \<open>The callback given to \<open>setTimeout\<close> by the \<open>close\<close> handler of a broadcaster.\<close>

definition cleanup :: "string \<Rightarrow> b_server \<Rightarrow> b_server" where
  "cleanup bid s =
     (case broadcasts s bid of
        None \<Rightarrow> s
      | Some currentRoom \<Rightarrow>
          if \<not> isLive currentRoom \<and> Map_size (viewers currentRoom) = 0
          then b_log (LogCleanedUp bid) (s\<lparr>broadcasts := (broadcasts s)(bid := None)\<rparr>)
          else s)"

definition b_on_close :: "b_conn \<times> b_server \<Rightarrow> b_conn \<times> b_server" where
  "b_on_close cs =
     (let c = fst cs; s = snd cs in
      if \<not> (truthy (currentBroadcastId c) \<and> truthy (b_currentPeerId c)) then cs
      else
        case (currentBroadcastId c, b_currentPeerId c) of
          (Some bid, Some pid) \<Rightarrow>
            (case broadcasts s bid of
               None \<Rightarrow> cs
             | Some room \<Rightarrow>
                 if currentRole c = Some Broadcaster
                 then (let room1 = room\<lparr>isLive := False\<rparr>;
                           s1 = s\<lparr>broadcasts := (broadcasts s)(bid \<mapsto> room1)\<rparr>;
                           s2 = notify_viewers room1 (BroadcastEnded bid) s1;
                           s3 = s2\<lparr>timers := timers s2 @ [(clock s2 + 30000, bid)]\<rparr>
                       in (c, b_log (LogBroadcasterDisconnected (b_currentUsername c) bid) s3))
                 else (let room1 = room\<lparr>viewers := Map_delete pid (viewers room)\<rparr>;
                           s1 = s\<lparr>broadcasts := (broadcasts s)(bid \<mapsto> room1)\<rparr>;
                           s2 = to_broadcaster room1
                                  [ViewerLeft pid, ViewerCount (Map_size (viewers room1))] s1
                       in (c, b_log (LogViewerDisconnected (b_currentUsername c) bid
                                        (Map_size (viewers room1))) s2)))
        | _ \<Rightarrow> cs)"

subsection \<open>The relay as a transition system\<close>

text \<open>
  The whole relay: the server state and the closure variables of every connection. An
  event is an envelope arriving on a socket, a socket closing (it is no longer open when
  its \<open>close\<close> handler runs), a socket leaving the open state without its \<open>close\<close> event
  having fired yet, time passing, or the timer at some position of the pending list
  firing, which the runtime does only once the timer is due.
\<close>

record b_system =
  server :: b_server
  conns :: "socket \<Rightarrow> b_conn"

datatype b_event =
    EvMessage socket string b_in
  | EvClose socket
  | EvNotOpen socket
  | EvAdvance nat
  | EvTimer nat

definition new_conn :: b_conn where
  "new_conn = \<lparr>currentBroadcastId = None, b_currentPeerId = None,
                b_currentUsername = ''Anonymous'', currentRole = None\<rparr>"

definition b_step :: "b_event \<Rightarrow> b_system \<Rightarrow> b_system" where
  "b_step ev sys =
     (case ev of
        EvMessage w newId m \<Rightarrow>
          (let r = b_on_message w newId m (conns sys w, server sys)
           in sys\<lparr>server := snd r, conns := (conns sys)(w := fst r)\<rparr>)
      | EvClose w \<Rightarrow>
          (let s0 = (server sys)\<lparr>b_openSockets := b_openSockets (server sys) - {w}\<rparr>;
               r = b_on_close (conns sys w, s0)
           in sys\<lparr>server := snd r, conns := (conns sys)(w := fst r)\<rparr>)
      | EvNotOpen w \<Rightarrow>
          sys\<lparr>server := (server sys)\<lparr>b_openSockets := b_openSockets (server sys) - {w}\<rparr>\<rparr>
      | EvAdvance d \<Rightarrow>
          sys\<lparr>server := (server sys)\<lparr>clock := clock (server sys) + d\<rparr>\<rparr>
      | EvTimer i \<Rightarrow>
          (let s = server sys in
           if i < length (timers s) \<and> fst (timers s ! i) \<le> clock s
           then sys\<lparr>server := cleanup (snd (timers s ! i))
                                  (s\<lparr>timers := take i (timers s) @ drop (Suc i) (timers s)\<rparr>)\<rparr>
           else sys))"

fun b_run :: "b_event list \<Rightarrow> b_system \<Rightarrow> b_system" where
  "b_run [] sys = sys"
| "b_run (ev # evs) sys = b_run evs (b_step ev sys)"

section \<open>The browser's peer connection\<close>

text \<open>
  An \<open>RTCPeerConnection\<close> as far as the session hooks use it: which instance it is (the
  number of the \<open>new RTCPeerConnection\<close> call that made it), its two descriptions, the
  candidates handed to \<open>addIceCandidate\<close> in call order, how often \<open>restartIce\<close> was
  called, the reported connectivity state and whether \<open>close\<close> was called. Session
  descriptions and candidates are opaque strings. Media tracks and data channels are not
  modelled. The functions below are the effects of the engine's operations on the
  connection; when they happen, and whether the promise of an operation is fulfilled or
  rejected, is decided where the operation is awaited.
\<close>

datatype RTCPeerConnectionState =
  StNew | StConnecting | StConnected | StDisconnected | StFailed | StClosed

record RTCPeerConnection =
  instanceId :: nat
  remoteDescription :: "string option"
  localDescription :: "string option"
  appliedCandidates :: "string list"
  iceRestarts :: nat
  connectionState :: RTCPeerConnectionState
  isClosed :: bool

definition new_RTCPeerConnection :: "nat \<Rightarrow> RTCPeerConnection" where
  "new_RTCPeerConnection n =
     \<lparr>instanceId = n, remoteDescription = None, localDescription = None, appliedCandidates = [],
      iceRestarts = 0, connectionState = StNew, isClosed = False\<rparr>"

definition setRemoteDescription :: "string \<Rightarrow> RTCPeerConnection \<Rightarrow> RTCPeerConnection" where
  "setRemoteDescription sdp pc = pc\<lparr>remoteDescription := Some sdp\<rparr>"

definition setLocalDescription :: "string \<Rightarrow> RTCPeerConnection \<Rightarrow> RTCPeerConnection" where
  "setLocalDescription sdp pc = pc\<lparr>localDescription := Some sdp\<rparr>"

definition addIceCandidate :: "string \<Rightarrow> RTCPeerConnection \<Rightarrow> RTCPeerConnection" where
  "addIceCandidate candidate pc = pc\<lparr>appliedCandidates := appliedCandidates pc @ [candidate]\<rparr>"

definition restartIce :: "RTCPeerConnection \<Rightarrow> RTCPeerConnection" where
  "restartIce pc = pc\<lparr>iceRestarts := iceRestarts pc + 1\<rparr>"

text \<open>The \<open>onconnectionstatechange\<close> callback every hook installs, run after the engine
  has set \<open>pc.connectionState\<close>.\<close>

definition onconnectionstatechange :: "RTCPeerConnectionState \<Rightarrow> RTCPeerConnection \<Rightarrow> RTCPeerConnection" where
  "onconnectionstatechange st pc =
     (let pc1 = pc\<lparr>connectionState := st\<rparr>
      in if connectionState pc1 = StFailed then restartIce pc1 else pc1)"

text \<open>\<open>pendingCandidatesRef.current.get(id) || []\<close>.\<close>

definition pending_or_empty :: "(string \<times> string list) list \<Rightarrow> string \<Rightarrow> string list" where
  "pending_or_empty m k = (case Map_get m k of None \<Rightarrow> [] | Some q \<Rightarrow> q)"

section \<open>Session hook of the group video call (\<open>useWebRTC\<close>)\<close>

text \<open>
  The refs and state of the hook, the envelopes passed to \<open>sendSignaling\<close> and the number
  of peer connections constructed so far. \<open>createPeerConnection\<close> takes the offer the
  engine creates as an argument (\<open>offerSdp\<close>); its check for an existing connection and
  its registration of the new one run before its first \<open>await\<close>. The handlers of offers,
  answers and candidates are given below, await by await.
\<close>

record g_client =
  g_peerConnections :: "(string \<times> RTCPeerConnection) list"
  g_pendingCandidates :: "(string \<times> string list) list"
  g_remotePeers :: "string list"
  g_signaled :: "mesh_in list"
  g_created :: nat

definition g_createPeerConnection :: "string \<Rightarrow> bool \<Rightarrow> string \<Rightarrow> g_client \<Rightarrow> g_client" where
  "g_createPeerConnection remotePeerId initiator offerSdp s =
     (if Map_has (g_peerConnections s) remotePeerId then s
      else
        (let pc = new_RTCPeerConnection (g_created s);
             s1 = s\<lparr>g_peerConnections := Map_set remotePeerId pc (g_peerConnections s),
                    g_created := g_created s + 1\<rparr>;
             s2 = (if initiator
                   then s1\<lparr>g_peerConnections :=
                              Map_set remotePeerId (setLocalDescription offerSdp pc) (g_peerConnections s1),
                            g_signaled := g_signaled s1 @ [Signal offer remotePeerId offerSdp]\<rparr>
                   else s1)
         in if remotePeerId \<in> set (g_remotePeers s2) then s2
            else s2\<lparr>g_remotePeers := g_remotePeers s2 @ [remotePeerId]\<rparr>))"

text \<open>\<open>pc?.remoteDescription\<close> is falsy when there is no connection or no remote
  description yet.\<close>

definition has_remote_description :: "RTCPeerConnection option \<Rightarrow> bool" where
  "has_remote_description pc = (case pc of None \<Rightarrow> False | Some p \<Rightarrow> remoteDescription p \<noteq> None)"

definition g_removePeer :: "string \<Rightarrow> g_client \<Rightarrow> g_client" where
  "g_removePeer remotePeerId s =
     s\<lparr>g_peerConnections := Map_delete remotePeerId (g_peerConnections s),
       g_pendingCandidates := Map_delete remotePeerId (g_pendingCandidates s),
       g_remotePeers := filter (\<lambda>p. p \<noteq> remotePeerId) (g_remotePeers s)\<rparr>"

text \<open>The engine reports a connectivity state for the connection to \<open>remotePeerId\<close>.\<close>

definition g_connection_state_event :: "string \<Rightarrow> RTCPeerConnectionState \<Rightarrow> g_client \<Rightarrow> g_client" where
  "g_connection_state_event remotePeerId st s =
     (case Map_get (g_peerConnections s) remotePeerId of
        None \<Rightarrow> s
      | Some pc \<Rightarrow>
          s\<lparr>g_peerConnections := Map_set remotePeerId (onconnectionstatechange st pc) (g_peerConnections s)\<rparr>)"

section \<open>Session hook of the expanded video call (\<open>useWebRTC\<close>)\<close>

datatype e_msg =
    EOffer string string string
  | EAnswer string string
  | EIceCandidate string string

record e_client =
  e_peerConnections :: "(string \<times> RTCPeerConnection) list"
  e_dataChannels :: "(string \<times> unit) list"
  e_pendingCandidates :: "(string \<times> string list) list"
  e_remotePeers :: "(string \<times> string) list"
  e_username :: string
  e_signaled :: "e_msg list"
  e_created :: nat

definition e_createPeerConnection :: "string \<Rightarrow> string \<Rightarrow> bool \<Rightarrow> string \<Rightarrow> e_client \<Rightarrow> e_client" where
  "e_createPeerConnection remotePeerId remoteUsername initiator offerSdp s =
     (if Map_has (e_peerConnections s) remotePeerId then s
      else
        (let pc = new_RTCPeerConnection (e_created s);
             s1 = s\<lparr>e_peerConnections := Map_set remotePeerId pc (e_peerConnections s),
                    e_created := e_created s + 1\<rparr>;
             s2 = (if Map_has (e_remotePeers s1) remotePeerId then s1
                   else s1\<lparr>e_remotePeers := e_remotePeers s1 @ [(remotePeerId, remoteUsername)]\<rparr>);
             s3 = (if initiator
                   then s2\<lparr>e_dataChannels := Map_set remotePeerId () (e_dataChannels s2)\<rparr>
                   else s2)
         in if initiator
            then s3\<lparr>e_peerConnections :=
                       Map_set remotePeerId (setLocalDescription offerSdp pc) (e_peerConnections s3),
                     e_signaled := e_signaled s3 @ [EOffer remotePeerId offerSdp (e_username s3)]\<rparr>
            else s3))"

definition e_connection_state_event :: "string \<Rightarrow> RTCPeerConnectionState \<Rightarrow> e_client \<Rightarrow> e_client" where
  "e_connection_state_event remotePeerId st s =
     (case Map_get (e_peerConnections s) remotePeerId of
        None \<Rightarrow> s
      | Some pc \<Rightarrow>
          s\<lparr>e_peerConnections := Map_set remotePeerId (onconnectionstatechange st pc) (e_peerConnections s)\<rparr>)"

section \<open>The page of the broadcast example (\<open>App\<close>, \<open>useBroadcasterWebRTC\<close>, \<open>useViewerWebRTC\<close>)\<close>

datatype AppView = V_home | V_broadcaster_lobby | V_viewer_lobby | V_broadcasting | V_viewing

text \<open>
  One record for the state of the \<open>App\<close> component and of its two session hooks. The page
  receives the relay's outbound envelopes and passes the relay's inbound envelopes to
  \<open>signaling.send\<close>, which sends only while the page's socket is open. \<open>view\<close> is the
  React state and \<open>viewRef\<close> the ref that the message handler reads; an effect copies the
  state to the ref after the render that follows a change of the state. \<open>App\<close> starts the
  hooks' asynchronous handlers of offers, answers and candidates without awaiting them:
  \<open>started\<close> lists these calls in the order they are made, and what the handlers then
  do is not part of the page.
\<close>

datatype hook_call =
    ViewerHandleOffer string
  | ViewerHandleIceCandidate string
  | BroadcasterHandleAnswer string string
  | BroadcasterHandleIceCandidate string string

record b_page =
  view :: AppView
  viewRef :: AppView
  pageBroadcastId :: "string option"
  pagePeerId :: string
  pageIsLive :: bool
  broadcasterUsername :: "string option"
  isConnecting :: bool
  messages :: "b_out list"
  bw_peerConnections :: "(string \<times> RTCPeerConnection) list"
  bw_pendingCandidates :: "(string \<times> string list) list"
  bw_viewers :: "(string \<times> string) list"
  bw_viewerCount :: int
  vw_peerConnection :: "RTCPeerConnection option"
  vw_pendingCandidates :: "string list"
  wsOpen :: bool
  signaled :: "b_in list"
  started :: "hook_call list"
  created :: nat

text \<open>The effect \<open>useEffect(() => { viewRef.current = view; ... }, [view, ...])\<close>.\<close>

definition sync_refs :: "b_page \<Rightarrow> b_page" where
  "sync_refs s = s\<lparr>viewRef := view s\<rparr>"

definition signaling_send :: "b_in \<Rightarrow> b_page \<Rightarrow> b_page" where
  "signaling_send m s = (if wsOpen s then s\<lparr>signaled := signaled s @ [m]\<rparr> else s)"

definition createConnectionForViewer :: "string \<Rightarrow> string \<Rightarrow> string \<Rightarrow> b_page \<Rightarrow> b_page" where
  "createConnectionForViewer viewerPeerId viewerUsername offerSdp s =
     (if Map_has (bw_peerConnections s) viewerPeerId then s
      else
        (let pc = new_RTCPeerConnection (created s);
             s1 = s\<lparr>bw_peerConnections := Map_set viewerPeerId pc (bw_peerConnections s),
                    created := created s + 1\<rparr>;
             s2 = (if Map_has (bw_viewers s1) viewerPeerId then s1
                   else s1\<lparr>bw_viewers := bw_viewers s1 @ [(viewerPeerId, viewerUsername)]\<rparr>);
             s3 = s2\<lparr>bw_viewerCount := bw_viewerCount s2 + 1\<rparr>;
             s4 = s3\<lparr>bw_peerConnections :=
                       Map_set viewerPeerId (setLocalDescription offerSdp pc) (bw_peerConnections s3)\<rparr>
         in signaling_send (OfferTo viewerPeerId offerSdp) s4))"

definition removeViewer :: "string \<Rightarrow> b_page \<Rightarrow> b_page" where
  "removeViewer viewerPeerId s =
     (let s1 = (case Map_get (bw_peerConnections s) viewerPeerId of
                  None \<Rightarrow> s
                | Some pc \<Rightarrow> s\<lparr>bw_peerConnections := Map_delete viewerPeerId (bw_peerConnections s)\<rparr>)
      in s1\<lparr>bw_pendingCandidates := Map_delete viewerPeerId (bw_pendingCandidates s1),
             bw_viewers := filter (\<lambda>v. fst v \<noteq> viewerPeerId) (bw_viewers s1),
             bw_viewerCount := max 0 (bw_viewerCount s1 - 1)\<rparr>)"

definition bw_closeAllConnections :: "b_page \<Rightarrow> b_page" where
  "bw_closeAllConnections s =
     s\<lparr>bw_peerConnections := [], bw_pendingCandidates := [], bw_viewers := [], bw_viewerCount := 0\<rparr>"

definition vw_closeConnection :: "b_page \<Rightarrow> b_page" where
  "vw_closeConnection s = s\<lparr>vw_peerConnection := None, vw_pendingCandidates := []\<rparr>"

text \<open>\<open>handleSignalingMessage\<close> of \<open>App\<close>; \<open>engineSdp\<close> is the offer the engine creates
  if the message makes the broadcaster's hook create a connection. The session
  description of an offer or answer and the candidate of an \<open>ice-candidate\<close> envelope are
  objects, hence truthy.\<close>

definition handleSignalingMessage :: "b_out \<Rightarrow> string \<Rightarrow> b_page \<Rightarrow> b_page" where
  "handleSignalingMessage message engineSdp s =
     (case message of
        BroadcastCreated bid \<Rightarrow> s\<lparr>pageBroadcastId := Some bid\<rparr>
      | BroadcastInfo bid live uname \<Rightarrow>
          s\<lparr>broadcasterUsername := Some uname, pageIsLive := live, isConnecting := False\<rparr>
      | BroadcastStarted bid \<Rightarrow> s\<lparr>pageIsLive := True\<rparr>
      | BroadcastEnded bid \<Rightarrow>
          (let s1 = s\<lparr>pageIsLive := False\<rparr>
           in if viewRef s1 = V_viewing then s1\<lparr>view := V_viewer_lobby\<rparr> else s1)
      | ViewerJoined pid uname \<Rightarrow>
          if viewRef s = V_broadcasting then createConnectionForViewer pid uname engineSdp s else s
      | ViewerLeft pid \<Rightarrow> removeViewer pid s
      | ViewerCount n \<Rightarrow> s
      | OfferFrom from sdp \<Rightarrow>
          if viewRef s = V_viewing \<or> viewRef s = V_viewer_lobby
          then (let s1 = (if viewRef s = V_viewer_lobby then s\<lparr>view := V_viewing\<rparr> else s)
                in s1\<lparr>started := started s1 @ [ViewerHandleOffer sdp]\<rparr>)
          else s
      | AnswerFrom from sdp \<Rightarrow>
          if viewRef s = V_broadcasting \<and> truthy from
          then (case from of
                  None \<Rightarrow> s
                | Some f \<Rightarrow> s\<lparr>started := started s @ [BroadcasterHandleAnswer f sdp]\<rparr>)
          else s
      | IceCandidateFrom from candidate \<Rightarrow>
          if viewRef s = V_broadcasting \<and> truthy from
          then (case from of
                  None \<Rightarrow> s
                | Some f \<Rightarrow> s\<lparr>started := started s @ [BroadcasterHandleIceCandidate f candidate]\<rparr>)
          else if viewRef s = V_viewing
          then s\<lparr>started := started s @ [ViewerHandleIceCandidate candidate]\<rparr>
          else s
      | Chat i from uname text ts \<Rightarrow> s\<lparr>messages := messages s @ [message]\<rparr>
      | Error e \<Rightarrow> s)"

definition handleGoLive :: "b_page \<Rightarrow> b_page" where
  "handleGoLive s =
     (if \<not> truthy (pageBroadcastId s) then s
      else case pageBroadcastId s of
             None \<Rightarrow> s
           | Some bid \<Rightarrow>
               (signaling_send (StartBroadcast bid) s)\<lparr>pageIsLive := True, view := V_broadcasting\<rparr>)"

text \<open>\<open>handleLeaveBroadcast\<close> of a viewer: the explicit leave, then \<open>signaling.disconnect()\<close>
  closes the socket.\<close>

definition handleLeaveBroadcast :: "b_page \<Rightarrow> b_page" where
  "handleLeaveBroadcast s =
     (let s1 = (if truthy (pageBroadcastId s)
                then (case pageBroadcastId s of
                        None \<Rightarrow> s
                      | Some bid \<Rightarrow> signaling_send (LeaveBroadcast bid (pagePeerId s)) s)
                else s);
          s2 = vw_closeConnection s1
      in s2\<lparr>wsOpen := False, pageBroadcastId := None, messages := [], broadcasterUsername := None,
             pageIsLive := False, view := V_home\<rparr>)"

text \<open>\<open>handleJoinAsViewer\<close>: the button of the viewer lobby, enabled once the page's
  live flag is set.\<close>

definition handleJoinAsViewer :: "b_page \<Rightarrow> b_page" where
  "handleJoinAsViewer s = s\<lparr>view := V_viewing\<rparr>"

section \<open>Runs of the session hooks\<close>

text \<open>
  What the application passes to a session hook for its remote peers, in arrival order:
  a request to create the connection, a remote offer (with the answer the engine will
  create for it), a remote answer, or a remote ICE candidate.
\<close>

datatype session_event =
    CreateConnection string bool string
  | RemoteOffer string string string
  | RemoteAnswer string string
  | RemoteCandidate string string

text \<open>The candidates of peer \<open>P\<close> among the events, in arrival order.\<close>

fun arrivals :: "string \<Rightarrow> session_event list \<Rightarrow> string list" where
  "arrivals P [] = []"
| "arrivals P (RemoteCandidate Q c # evs) = (if Q = P then c # arrivals P evs else arrivals P evs)"
| "arrivals P (ev # evs) = arrivals P evs"

definition g_init :: g_client where
  "g_init = \<lparr>g_peerConnections = [], g_pendingCandidates = [], g_remotePeers = [],
             g_signaled = [], g_created = 0\<rparr>"

text \<open>The candidates handed to the engine for peer \<open>P\<close> so far, in the order of the calls.\<close>

definition applied_of :: "(string \<times> RTCPeerConnection) list \<Rightarrow> string \<Rightarrow> string list" where
  "applied_of pcs P = (case Map_get pcs P of None \<Rightarrow> [] | Some pc \<Rightarrow> appliedCandidates pc)"

definition e_init :: "string \<Rightarrow> e_client" where
  "e_init username = \<lparr>e_peerConnections = [], e_dataChannels = [], e_pendingCandidates = [],
                       e_remotePeers = [], e_username = username, e_signaled = [], e_created = 0\<rparr>"

section \<open>The asynchronous handlers of the mesh hooks\<close>

text \<open>
  \<open>handleOffer\<close>, \<open>handleAnswer\<close> and \<open>handleIceCandidate\<close> are \<open>async\<close> functions, and the
  applications call them from the message handler of the signaling socket without
  awaiting them. A call runs up to its first \<open>await\<close> of an engine promise and is then
  suspended; the next signaling message is handled while it is suspended; when the
  promise settles, the call runs on to its next \<open>await\<close> or to its end. (An \<open>await\<close> of
  \<open>createPeerConnection(id, false)\<close>, which awaits nothing itself, lets no other message in.)

  A suspended call is kept with what it still has to do: which peer it serves, and
  \<^item> \<open>AwaitRemote\<close>: it awaits \<open>pc.setRemoteDescription(sdp)\<close>; the last field is the answer
    the engine will create if the call is \<open>handleOffer\<close>, and \<open>None\<close> if it is \<open>handleAnswer\<close>;
  \<^item> \<open>AwaitCandidate\<close>: it is inside \<open>for (const candidate of pending)\<close> and awaits
    \<open>pc.addIceCandidate(candidate)\<close>; the list holds the candidates of \<open>pending\<close> the loop has
    not reached yet;
  \<^item> \<open>AwaitCreateAnswer\<close>, \<open>AwaitLocal\<close>: \<open>handleOffer\<close> awaits \<open>pc.createAnswer()\<close>, then
    \<open>pc.setLocalDescription(answer)\<close>;
  \<^item> \<open>AwaitDirect\<close>: \<open>handleIceCandidate\<close> awaits \<open>pc.addIceCandidate(candidate)\<close> for a
    candidate it did not queue.

  The engine works off the operations of one connection in the order they were called.
  So a candidate is appended to \<open>appliedCandidates\<close> when \<open>addIceCandidate\<close> is called, and
  every call of an engine operation is also recorded, with the peer, in the order of the
  calls. \<open>pc.remoteDescription\<close> and \<open>pc.localDescription\<close> change when the operation that
  sets them is fulfilled. No event of this system removes a connection or a queue, so
  the peer id names the \<open>pc\<close> object a suspended call holds, and the array \<open>pending\<close> is not
  extended while its loop runs (a candidate is pushed only while the connection has no
  remote description).
\<close>

datatype engine_call =
    CallSetRemoteDescription string
  | CallAddIceCandidate string
  | CallCreateAnswer
  | CallSetLocalDescription string

datatype task =
    AwaitRemote string string "string option"
  | AwaitCandidate string "string list" "string option"
  | AwaitCreateAnswer string string
  | AwaitLocal string string
  | AwaitDirect string

datatype outcome = Fulfilled | Rejected

datatype async_event =
    Deliver session_event
  | Settle nat outcome

text \<open>The session events among the events of a run, in order.\<close>

fun delivered :: "async_event list \<Rightarrow> session_event list" where
  "delivered [] = []"
| "delivered (Deliver ev # evs) = ev # delivered evs"
| "delivered (Settle i out # evs) = delivered evs"

definition remove_task :: "nat \<Rightarrow> task list \<Rightarrow> task list" where
  "remove_task i ts = take i ts @ drop (Suc i) ts"

text \<open>Applying an engine effect to the connection of a peer, if it has one.\<close>

definition update_pc :: "string \<Rightarrow> (RTCPeerConnection \<Rightarrow> RTCPeerConnection)
                          \<Rightarrow> (string \<times> RTCPeerConnection) list \<Rightarrow> (string \<times> RTCPeerConnection) list" where
  "update_pc P f pcs = (case Map_get pcs P of None \<Rightarrow> pcs | Some pc \<Rightarrow> Map_set P (f pc) pcs)"

subsection \<open>Group video call\<close>

record g_async =
  g_hook :: g_client
  g_tasks :: "task list"
  g_calls :: "(string \<times> engine_call) list"

definition g_async_init :: g_async where
  "g_async_init = \<lparr>g_hook = g_init, g_tasks = [], g_calls = []\<rparr>"

definition g_call :: "string \<Rightarrow> engine_call \<Rightarrow> g_async \<Rightarrow> g_async" where
  "g_call P c sys = sys\<lparr>g_calls := g_calls sys @ [(P, c)]\<rparr>"

definition g_call_addIceCandidate :: "string \<Rightarrow> string \<Rightarrow> g_async \<Rightarrow> g_async" where
  "g_call_addIceCandidate P candidate sys =
     g_call P (CallAddIceCandidate candidate)
       (sys\<lparr>g_hook := (g_hook sys)\<lparr>g_peerConnections :=
                 update_pc P (addIceCandidate candidate) (g_peerConnections (g_hook sys))\<rparr>\<rparr>)"

text \<open>The rest of \<open>handleOffer\<close> or \<open>handleAnswer\<close> from the head of its loop on, for the
  call kept at position \<open>i\<close>: the next candidate is handed to the engine and awaited; after
  the last one the queue of the peer is deleted, and \<open>handleOffer\<close> goes on to create the
  answer while \<open>handleAnswer\<close> ends.\<close>

definition g_continue_drain :: "nat \<Rightarrow> string \<Rightarrow> string list \<Rightarrow> string option \<Rightarrow> g_async \<Rightarrow> g_async" where
  "g_continue_drain i P cands answerSdp sys =
     (case cands of
        candidate # rest \<Rightarrow>
          (g_call_addIceCandidate P candidate sys)
            \<lparr>g_tasks := (g_tasks sys)[i := AwaitCandidate P rest answerSdp]\<rparr>
      | [] \<Rightarrow>
          (let sys1 = sys\<lparr>g_hook := (g_hook sys)\<lparr>g_pendingCandidates :=
                               Map_delete P (g_pendingCandidates (g_hook sys))\<rparr>\<rparr>
           in case answerSdp of
                None \<Rightarrow> sys1\<lparr>g_tasks := remove_task i (g_tasks sys1)\<rparr>
              | Some a \<Rightarrow> (g_call P CallCreateAnswer sys1)
                            \<lparr>g_tasks := (g_tasks sys1)[i := AwaitCreateAnswer P a]\<rparr>))"

text \<open>A session event arrives: the handler runs up to its first \<open>await\<close> of the engine.\<close>

definition g_deliver :: "session_event \<Rightarrow> g_async \<Rightarrow> g_async" where
  "g_deliver ev sys =
     (case ev of
        CreateConnection P initiator offerSdp \<Rightarrow>
          sys\<lparr>g_hook := g_createPeerConnection P initiator offerSdp (g_hook sys)\<rparr>
      | RemoteOffer P sdp answerSdp \<Rightarrow>
          (let h = (if \<not> Map_has (g_peerConnections (g_hook sys)) P
                    then g_createPeerConnection P False [] (g_hook sys) else g_hook sys)
           in case Map_get (g_peerConnections h) P of
                None \<Rightarrow> sys\<lparr>g_hook := h\<rparr>
              | Some pc \<Rightarrow>
                  g_call P (CallSetRemoteDescription sdp)
                    (sys\<lparr>g_hook := h, g_tasks := g_tasks sys @ [AwaitRemote P sdp (Some answerSdp)]\<rparr>))
      | RemoteAnswer P sdp \<Rightarrow>
          (case Map_get (g_peerConnections (g_hook sys)) P of
             None \<Rightarrow> sys
           | Some pc \<Rightarrow>
               g_call P (CallSetRemoteDescription sdp)
                 (sys\<lparr>g_tasks := g_tasks sys @ [AwaitRemote P sdp None]\<rparr>))
      | RemoteCandidate P candidate \<Rightarrow>
          if has_remote_description (Map_get (g_peerConnections (g_hook sys)) P)
          then (g_call_addIceCandidate P candidate sys)\<lparr>g_tasks := g_tasks sys @ [AwaitDirect P]\<rparr>
          else sys\<lparr>g_hook := (g_hook sys)\<lparr>g_pendingCandidates :=
                        Map_set P (pending_or_empty (g_pendingCandidates (g_hook sys)) P @ [candidate])
                          (g_pendingCandidates (g_hook sys))\<rparr>\<rparr>)"

text \<open>The promise awaited by the call at position \<open>i\<close> settles. The hook of the group call
  catches nothing: a rejection ends the call where it stands.\<close>

definition g_settle :: "nat \<Rightarrow> outcome \<Rightarrow> g_async \<Rightarrow> g_async" where
  "g_settle i out sys =
     (if length (g_tasks sys) \<le> i then sys
      else case out of
        Rejected \<Rightarrow> sys\<lparr>g_tasks := remove_task i (g_tasks sys)\<rparr>
      | Fulfilled \<Rightarrow>
          (case g_tasks sys ! i of
             AwaitRemote P sdp answerSdp \<Rightarrow>
               (let sys1 = sys\<lparr>g_hook := (g_hook sys)\<lparr>g_peerConnections :=
                                    update_pc P (setRemoteDescription sdp) (g_peerConnections (g_hook sys))\<rparr>\<rparr>
                in g_continue_drain i P (pending_or_empty (g_pendingCandidates (g_hook sys1)) P) answerSdp sys1)
           | AwaitCandidate P rest answerSdp \<Rightarrow> g_continue_drain i P rest answerSdp sys
           | AwaitCreateAnswer P a \<Rightarrow>
               (g_call P (CallSetLocalDescription a) sys)\<lparr>g_tasks := (g_tasks sys)[i := AwaitLocal P a]\<rparr>
           | AwaitLocal P a \<Rightarrow>
               sys\<lparr>g_hook := (g_hook sys)\<lparr>g_peerConnections :=
                                 update_pc P (setLocalDescription a) (g_peerConnections (g_hook sys)),
                               g_signaled := g_signaled (g_hook sys) @ [Signal answer P a]\<rparr>,
                   g_tasks := remove_task i (g_tasks sys)\<rparr>
           | AwaitDirect P \<Rightarrow> sys\<lparr>g_tasks := remove_task i (g_tasks sys)\<rparr>))"

definition g_async_step :: "async_event \<Rightarrow> g_async \<Rightarrow> g_async" where
  "g_async_step ev sys = (case ev of Deliver e \<Rightarrow> g_deliver e sys | Settle i out \<Rightarrow> g_settle i out sys)"

fun g_async_run :: "async_event list \<Rightarrow> g_async \<Rightarrow> g_async" where
  "g_async_run [] sys = sys"
| "g_async_run (ev # evs) sys = g_async_run evs (g_async_step ev sys)"

subsection \<open>Expanded video call\<close>

text \<open>The hook of the expanded call differs in three points: \<open>handleOffer\<close> is given the
  remote user's name (\<open>uname\<close> below gives the name the envelopes carry for each peer), the
  answer is sent without a \<open>from\<close>, and every \<open>await\<close> is inside a \<open>try\<close> whose \<open>catch\<close> logs
  the error, after which the call ends.\<close>

datatype error_site = ErrorHandlingOffer | ErrorHandlingAnswer | ErrorAddingIceCandidate

record e_async =
  e_hook :: e_client
  e_tasks :: "task list"
  e_calls :: "(string \<times> engine_call) list"
  e_errors :: "error_site list"

definition e_async_init :: "string \<Rightarrow> e_async" where
  "e_async_init username = \<lparr>e_hook = e_init username, e_tasks = [], e_calls = [], e_errors = []\<rparr>"

definition e_call :: "string \<Rightarrow> engine_call \<Rightarrow> e_async \<Rightarrow> e_async" where
  "e_call P c sys = sys\<lparr>e_calls := e_calls sys @ [(P, c)]\<rparr>"

definition e_call_addIceCandidate :: "string \<Rightarrow> string \<Rightarrow> e_async \<Rightarrow> e_async" where
  "e_call_addIceCandidate P candidate sys =
     e_call P (CallAddIceCandidate candidate)
       (sys\<lparr>e_hook := (e_hook sys)\<lparr>e_peerConnections :=
                 update_pc P (addIceCandidate candidate) (e_peerConnections (e_hook sys))\<rparr>\<rparr>)"

definition e_continue_drain :: "nat \<Rightarrow> string \<Rightarrow> string list \<Rightarrow> string option \<Rightarrow> e_async \<Rightarrow> e_async" where
  "e_continue_drain i P cands answerSdp sys =
     (case cands of
        candidate # rest \<Rightarrow>
          (e_call_addIceCandidate P candidate sys)
            \<lparr>e_tasks := (e_tasks sys)[i := AwaitCandidate P rest answerSdp]\<rparr>
      | [] \<Rightarrow>
          (let sys1 = sys\<lparr>e_hook := (e_hook sys)\<lparr>e_pendingCandidates :=
                               Map_delete P (e_pendingCandidates (e_hook sys))\<rparr>\<rparr>
           in case answerSdp of
                None \<Rightarrow> sys1\<lparr>e_tasks := remove_task i (e_tasks sys1)\<rparr>
              | Some a \<Rightarrow> (e_call P CallCreateAnswer sys1)
                            \<lparr>e_tasks := (e_tasks sys1)[i := AwaitCreateAnswer P a]\<rparr>))"

definition e_deliver :: "(string \<Rightarrow> string) \<Rightarrow> session_event \<Rightarrow> e_async \<Rightarrow> e_async" where
  "e_deliver uname ev sys =
     (case ev of
        CreateConnection P initiator offerSdp \<Rightarrow>
          sys\<lparr>e_hook := e_createPeerConnection P (uname P) initiator offerSdp (e_hook sys)\<rparr>
      | RemoteOffer P sdp answerSdp \<Rightarrow>
          (let h = (if \<not> Map_has (e_peerConnections (e_hook sys)) P
                    then e_createPeerConnection P (uname P) False [] (e_hook sys)
                    else (e_hook sys)\<lparr>e_remotePeers :=
                            map (\<lambda>p. if fst p = P \<and> snd p = ''Unknown'' then (fst p, uname P) else p)
                              (e_remotePeers (e_hook sys))\<rparr>)
           in case Map_get (e_peerConnections h) P of
                None \<Rightarrow> sys\<lparr>e_hook := h\<rparr>
              | Some pc \<Rightarrow>
                  e_call P (CallSetRemoteDescription sdp)
                    (sys\<lparr>e_hook := h, e_tasks := e_tasks sys @ [AwaitRemote P sdp (Some answerSdp)]\<rparr>))
      | RemoteAnswer P sdp \<Rightarrow>
          (case Map_get (e_peerConnections (e_hook sys)) P of
             None \<Rightarrow> sys
           | Some pc \<Rightarrow>
               e_call P (CallSetRemoteDescription sdp)
                 (sys\<lparr>e_tasks := e_tasks sys @ [AwaitRemote P sdp None]\<rparr>))
      | RemoteCandidate P candidate \<Rightarrow>
          if \<not> has_remote_description (Map_get (e_peerConnections (e_hook sys)) P)
          then sys\<lparr>e_hook := (e_hook sys)\<lparr>e_pendingCandidates :=
                        Map_set P (pending_or_empty (e_pendingCandidates (e_hook sys)) P @ [candidate])
                          (e_pendingCandidates (e_hook sys))\<rparr>\<rparr>
          else (e_call_addIceCandidate P candidate sys)\<lparr>e_tasks := e_tasks sys @ [AwaitDirect P]\<rparr>)"

text \<open>Which \<open>catch\<close> a rejection reaches.\<close>

definition error_site_of :: "task \<Rightarrow> error_site" where
  "error_site_of t =
     (case t of
        AwaitRemote P sdp answerSdp \<Rightarrow> (if answerSdp = None then ErrorHandlingAnswer else ErrorHandlingOffer)
      | AwaitCandidate P rest answerSdp \<Rightarrow> (if answerSdp = None then ErrorHandlingAnswer else ErrorHandlingOffer)
      | AwaitCreateAnswer P a \<Rightarrow> ErrorHandlingOffer
      | AwaitLocal P a \<Rightarrow> ErrorHandlingOffer
      | AwaitDirect P \<Rightarrow> ErrorAddingIceCandidate)"

definition e_settle :: "nat \<Rightarrow> outcome \<Rightarrow> e_async \<Rightarrow> e_async" where
  "e_settle i out sys =
     (if length (e_tasks sys) \<le> i then sys
      else case out of
        Rejected \<Rightarrow> sys\<lparr>e_tasks := remove_task i (e_tasks sys),
                        e_errors := e_errors sys @ [error_site_of (e_tasks sys ! i)]\<rparr>
      | Fulfilled \<Rightarrow>
          (case e_tasks sys ! i of
             AwaitRemote P sdp answerSdp \<Rightarrow>
               (let sys1 = sys\<lparr>e_hook := (e_hook sys)\<lparr>e_peerConnections :=
                                    update_pc P (setRemoteDescription sdp) (e_peerConnections (e_hook sys))\<rparr>\<rparr>
                in e_continue_drain i P (pending_or_empty (e_pendingCandidates (e_hook sys1)) P) answerSdp sys1)
           | AwaitCandidate P rest answerSdp \<Rightarrow> e_continue_drain i P rest answerSdp sys
           | AwaitCreateAnswer P a \<Rightarrow>
               (e_call P (CallSetLocalDescription a) sys)\<lparr>e_tasks := (e_tasks sys)[i := AwaitLocal P a]\<rparr>
           | AwaitLocal P a \<Rightarrow>
               sys\<lparr>e_hook := (e_hook sys)\<lparr>e_peerConnections :=
                                 update_pc P (setLocalDescription a) (e_peerConnections (e_hook sys)),
                               e_signaled := e_signaled (e_hook sys) @ [EAnswer P a]\<rparr>,
                   e_tasks := remove_task i (e_tasks sys)\<rparr>
           | AwaitDirect P \<Rightarrow> sys\<lparr>e_tasks := remove_task i (e_tasks sys)\<rparr>))"

definition e_async_step :: "(string \<Rightarrow> string) \<Rightarrow> async_event \<Rightarrow> e_async \<Rightarrow> e_async" where
  "e_async_step uname ev sys =
     (case ev of Deliver e \<Rightarrow> e_deliver uname e sys | Settle i out \<Rightarrow> e_settle i out sys)"

fun e_async_run :: "(string \<Rightarrow> string) \<Rightarrow> async_event list \<Rightarrow> e_async \<Rightarrow> e_async" where
  "e_async_run uname [] sys = sys"
| "e_async_run uname (ev # evs) sys = e_async_run uname evs (e_async_step uname ev sys)"

section \<open>Example states\<close>

text \<open>A broadcast \<open>B1\<close> of broadcaster \<open>p\<close> (socket 1) with the viewers \<open>v\<close> (socket 2) and
  \<open>u\<close> (socket 3), all sockets open; and the closure variables of the three connections.\<close>

definition ex_room :: BroadcastRoom where
  "ex_room = \<lparr>broadcastId = ''B1'',
               broadcaster = Some \<lparr>bc_peerId = ''p'', bc_username = ''Bo'', bc_ws = 1\<rparr>,
               viewers = [(''v'', \<lparr>v_peerId = ''v'', v_username = ''Vi'', v_ws = 2\<rparr>),
                          (''u'', \<lparr>v_peerId = ''u'', v_username = ''Uma'', v_ws = 3\<rparr>)],
               isLive = False\<rparr>"

definition ex_server :: b_server where
  "ex_server = \<lparr>broadcasts = [''B1'' \<mapsto> ex_room], b_openSockets = {1, 2, 3}, b_sent = [],
                 b_logs = [], clock = 0, timers = []\<rparr>"

definition ex_broadcaster_conn :: b_conn where
  "ex_broadcaster_conn = \<lparr>currentBroadcastId = Some ''B1'', b_currentPeerId = Some ''p'',
                           b_currentUsername = ''Bo'', currentRole = Some Broadcaster\<rparr>"

definition ex_viewer_conn :: b_conn where
  "ex_viewer_conn = \<lparr>currentBroadcastId = Some ''B1'', b_currentPeerId = Some ''v'',
                      b_currentUsername = ''Vi'', currentRole = Some Viewer\<rparr>"

text \<open>A mesh room \<open>r1\<close> with the members \<open>a\<close> (socket 1) and \<open>b\<close> (socket 2), and the
  closure variables of the connection of \<open>a\<close>.\<close>

definition ex_mesh_server :: mesh_server where
  "ex_mesh_server = \<lparr>rooms = [''r1'' \<mapsto> [(''a'', \<lparr>peerId = ''a'', ws = 1\<rparr>),
                                           (''b'', \<lparr>peerId = ''b'', ws = 2\<rparr>)]],
                      openSockets = {1, 2}, sent = [], logs = []\<rparr>"

definition ex_mesh_conn :: mesh_conn where
  "ex_mesh_conn = \<lparr>currentRoomId = Some ''r1'', currentPeerId = Some ''a''\<rparr>"

text \<open>The page of the broadcaster of \<open>B1\<close>: in the lobby, with its socket open and no
  session yet.\<close>

definition ex_page :: b_page where
  "ex_page = \<lparr>view = V_broadcaster_lobby, viewRef = V_broadcaster_lobby,
               pageBroadcastId = Some ''B1'', pagePeerId = ''p'',
               pageIsLive = False, broadcasterUsername = None, isConnecting = False, messages = [],
               bw_peerConnections = [], bw_pendingCandidates = [], bw_viewers = [], bw_viewerCount = 0,
               vw_peerConnection = None, vw_pendingCandidates = [], wsOpen = True, signaled = [],
               started = [], created = 0\<rparr>"

text \<open>A group-call hook that has initiated a connection to \<open>b\<close>, and an expanded-call
  hook that has done the same.\<close>

definition ex_g_client :: g_client where
  "ex_g_client = g_createPeerConnection ''b'' True ''o'' g_init"

definition ex_e_client :: e_client where
  "ex_e_client = e_createPeerConnection ''b'' ''Bob'' True ''o'' (e_init ''me'')"

text \<open>The envelopes of a sent list that went to socket \<open>w\<close>, and a page handling a list of
  envelopes in order.\<close>

definition delivered_to :: "socket \<Rightarrow> (socket \<times> b_out) list \<Rightarrow> b_out list" where
  "delivered_to w xs = map snd (filter (\<lambda>x. fst x = w) xs)"

fun receive_all :: "b_out list \<Rightarrow> string \<Rightarrow> b_page \<Rightarrow> b_page" where
  "receive_all [] engineSdp s = s"
| "receive_all (m # ms) engineSdp s = receive_all ms engineSdp (handleSignalingMessage m engineSdp s)"

text \<open>The relay with broadcast \<open>B1\<close> and its three connections; the broadcaster's page after
  it went live, rendered, and both viewers joined; the page of viewer \<open>v\<close> while watching.\<close>

definition ex_system :: b_system where
  "ex_system = \<lparr>server = ex_server,
                 conns = (\<lambda>w. new_conn)
                   (1 := ex_broadcaster_conn, 2 := ex_viewer_conn,
                    3 := \<lparr>currentBroadcastId = Some ''B1'', b_currentPeerId = Some ''u'',
                           b_currentUsername = ''Uma'', currentRole = Some Viewer\<rparr>)\<rparr>"

definition ex_live_page :: b_page where
  "ex_live_page = receive_all [ViewerJoined ''v'' ''Vi'', ViewerCount 1, ViewerJoined ''u'' ''Uma'', ViewerCount 2]
                    ''o'' (sync_refs (handleGoLive ex_page))"

definition ex_viewer_page :: b_page where
  "ex_viewer_page = ex_page\<lparr>view := V_viewing, viewRef := V_viewing, pagePeerId := ''v'', pageIsLive := True,
                            broadcasterUsername := Some ''Bo''\<rparr>"

text \<open>A relay on which \<open>p\<close> (socket 1) creates broadcast \<open>B1\<close> and \<open>v\<close> (socket 2) joins it
  before it is live; the broadcaster's page handling what the relay sent it meanwhile;
  the page going live; the relay handling what the page sent; and the page, rendered as
  live, handling what the relay sent it after that.\<close>

definition b_init :: b_system where
  "b_init = \<lparr>server = \<lparr>broadcasts = Map.empty, b_openSockets = {1, 2}, b_sent = [], b_logs = [],
                        clock = 0, timers = []\<rparr>,
              conns = (\<lambda>w. new_conn)\<rparr>"

definition prelive_system :: b_system where
  "prelive_system = b_run [EvMessage 1 ''B1'' (CreateBroadcast ''p'' (Some ''Bo'')),
                           EvMessage 2 [] (JoinBroadcast ''B1'' ''v'' (Some ''Vi''))] b_init"

definition prelive_page :: b_page where
  "prelive_page = receive_all (delivered_to 1 (b_sent (server prelive_system))) ''o''
                    (ex_page\<lparr>pageBroadcastId := None\<rparr>)"

definition golive_system :: b_system where
  "golive_system = b_run (map (EvMessage 1 []) (signaled (handleGoLive prelive_page))) prelive_system"

definition golive_page :: b_page where
  "golive_page = receive_all
                   (drop (length (delivered_to 1 (b_sent (server prelive_system))))
                      (delivered_to 1 (b_sent (server golive_system))))
                   ''o'' (sync_refs (handleGoLive prelive_page))"

text \<open>The page of viewer \<open>v\<close> in the lobby, having sent \<open>join-broadcast\<close>; the same page
  after everything the relay sent it up to and including the broadcaster's going live,
  the viewer then pressing the lobby's button.\<close>

definition prelive_viewer_page :: b_page where
  "prelive_viewer_page = ex_page\<lparr>view := V_viewer_lobby, viewRef := V_viewer_lobby, pagePeerId := ''v'',
                                 isConnecting := True\<rparr>"

definition golive_viewer_page :: b_page where
  "golive_viewer_page = sync_refs (handleJoinAsViewer
                          (receive_all (delivered_to 2 (b_sent (server golive_system))) ''o'' prelive_viewer_page))"



text \<open>A run of the group-call hook: two candidates of \<open>b\<close> arrive, then its offer;
  \<open>setRemoteDescription\<close> is fulfilled, so \<open>handleOffer\<close> enters its loop and awaits
  \<open>addIceCandidate\<close> of the first queued candidate; a third candidate of \<open>b\<close> arrives
  meanwhile; then the awaited promises are fulfilled one after the other: of the first
  queued candidate (position 0), of the third candidate (position 1), of the second
  queued candidate, of \<open>createAnswer\<close> and of \<open>setLocalDescription\<close>.\<close>

definition overtaking_offer_run :: "async_event list" where
  "overtaking_offer_run =
     [Deliver (RemoteCandidate ''b'' ''c1''),
      Deliver (RemoteCandidate ''b'' ''c2''),
      Deliver (RemoteOffer ''b'' ''sdp'' ''ans''),
      Settle 0 Fulfilled,
      Deliver (RemoteCandidate ''b'' ''c3''),
      Settle 0 Fulfilled,
      Settle 1 Fulfilled,
      Settle 0 Fulfilled,
      Settle 0 Fulfilled,
      Settle 0 Fulfilled]"

text \<open>A run of the expanded-call hook: it initiates the connection to \<open>b\<close>; two
  candidates of \<open>b\<close> arrive, then its answer; \<open>setRemoteDescription\<close> is fulfilled, so
  \<open>handleAnswer\<close> enters its loop; a third candidate of \<open>b\<close> arrives meanwhile; then the
  awaited promises are fulfilled: of the first queued candidate, of the third candidate,
  of the second queued candidate. Every envelope carries the user name \<open>Bea\<close> for \<open>b\<close>.\<close>

definition ex_uname :: "string \<Rightarrow> string" where
  "ex_uname P = ''Bea''"

definition overtaking_answer_run :: "async_event list" where
  "overtaking_answer_run =
     [Deliver (CreateConnection ''b'' True ''o''),
      Deliver (RemoteCandidate ''b'' ''c1''),
      Deliver (RemoteCandidate ''b'' ''c2''),
      Deliver (RemoteAnswer ''b'' ''sdp''),
      Settle 0 Fulfilled,
      Deliver (RemoteCandidate ''b'' ''c3''),
      Settle 0 Fulfilled,
      Settle 1 Fulfilled,
      Settle 0 Fulfilled]"

section \<open>Facts about the map operations\<close>

lemma Map_set_fresh: "k \<notin> set (Map_keys m) \<Longrightarrow> Map_set k v m = m @ [(k, v)]"
  by (induction m) (auto simp: Map_keys_def)

lemma filter_excluding_absent:
  assumes "\<forall>kp \<in> set m. key (snd kp) = fst kp" and "k \<notin> set (Map_keys m)"
  shows "filter (\<lambda>p. key p \<noteq> k \<and> P p) (Map_values m) = filter P (Map_values m)"
  using assms by (induction m) (auto simp: Map_keys_def Map_values_def)

lemma Map_get_set: "Map_get (Map_set k v m) k' = (if k' = k then Some v else Map_get m k')"
  by (induction m) (auto simp: Map_get_def)

lemma Map_get_delete: "Map_get (Map_delete k m) k' = (if k' = k then None else Map_get m k')"
  by (induction m) (auto simp: Map_get_def Map_delete_def)

lemma Map_has_get: "Map_has m k = (Map_get m k \<noteq> None)"
  by (simp add: Map_has_def Map_get_def)

lemma Map_keys_set:
  "Map_keys (Map_set k v m) = (if k \<in> set (Map_keys m) then Map_keys m else Map_keys m @ [k])"
  by (induction m) (force simp: Map_keys_def)+

lemma distinct_Map_set: "distinct (Map_keys m) \<Longrightarrow> distinct (Map_keys (Map_set k v m))"
  by (simp add: Map_keys_set)

lemma Map_set_set: "Map_set k v (Map_set k v' m) = Map_set k v m"
  by (induction m) auto

section \<open>Joining a mesh room\<close>

lemma join_effect:
  assumes wf: "\<forall>kp \<in> set room. peerId (snd kp) = fst kp"
    and room: "room = (case rooms s roomId of None \<Rightarrow> [] | Some r \<Rightarrow> r)"
    and new: "pid \<notin> set (Map_keys room)"
  shows "rooms (snd (join w roomId pid (c, s))) roomId = Some (room @ [(pid, \<lparr>peerId = pid, ws = w\<rparr>)])"
    and "sent (snd (join w roomId pid (c, s))) =
           sent s @ (w, RoomPeers (Map_keys room)) #
             map (\<lambda>p. (ws p, PeerJoined pid)) (filter (\<lambda>p. ws p \<in> openSockets s) (Map_values room))"
proof -
  have f: "filter (\<lambda>p. peerId p \<noteq> pid \<and> ws p \<in> openSockets s) (Map_values room)
             = filter (\<lambda>p. ws p \<in> openSockets s) (Map_values room)"
    using filter_excluding_absent [OF wf new] .
  show "rooms (snd (join w roomId pid (c, s))) roomId = Some (room @ [(pid, \<lparr>peerId = pid, ws = w\<rparr>)])"
    using new room
    by (cases "rooms s roomId") (simp_all add: join_def broadcast_def Let_def Map_set_fresh)
  show "sent (snd (join w roomId pid (c, s))) =
           sent s @ (w, RoomPeers (Map_keys room)) #
             map (\<lambda>p. (ws p, PeerJoined pid)) (filter (\<lambda>p. ws p \<in> openSockets s) (Map_values room))"
    using new room f
    by (cases "rooms s roomId") (simp_all add: join_def broadcast_def Let_def Map_set_fresh Map_values_def)
qed

lemma x_join_effect:
  assumes wf: "\<forall>kp \<in> set room. x_peerId (snd kp) = fst kp"
    and room: "room = (case x_rooms s roomId of None \<Rightarrow> [] | Some r \<Rightarrow> r)"
    and new: "pid \<notin> set (Map_keys room)"
  shows "x_rooms (snd (x_join w roomId pid u (c, s))) roomId =
           Some (room @ [(pid, \<lparr>x_peerId = pid, x_username = or_default u ''Anonymous'', x_ws = w,
                                  x_isScreenSharing = False\<rparr>)])"
    and "x_sent (snd (x_join w roomId pid u (c, s))) =
           x_sent s @
             (w, XRoomPeers (map (\<lambda>p. (x_peerId p, x_username p, x_isScreenSharing p)) (Map_values room))) #
             map (\<lambda>p. (x_ws p, XPeerJoined pid (or_default u ''Anonymous'')))
               (filter (\<lambda>p. x_ws p \<in> x_openSockets s) (Map_values room))"
proof -
  have f: "filter (\<lambda>p. x_peerId p \<noteq> pid \<and> x_ws p \<in> x_openSockets s) (Map_values room)
             = filter (\<lambda>p. x_ws p \<in> x_openSockets s) (Map_values room)"
    using filter_excluding_absent [OF wf new] .
  show "x_rooms (snd (x_join w roomId pid u (c, s))) roomId =
           Some (room @ [(pid, \<lparr>x_peerId = pid, x_username = or_default u ''Anonymous'', x_ws = w,
                                  x_isScreenSharing = False\<rparr>)])"
    using new room
    by (cases "x_rooms s roomId") (simp_all add: x_join_def x_broadcast_def Let_def Map_set_fresh)
  show "x_sent (snd (x_join w roomId pid u (c, s))) =
           x_sent s @
             (w, XRoomPeers (map (\<lambda>p. (x_peerId p, x_username p, x_isScreenSharing p)) (Map_values room))) #
             map (\<lambda>p. (x_ws p, XPeerJoined pid (or_default u ''Anonymous'')))
               (filter (\<lambda>p. x_ws p \<in> x_openSockets s) (Map_values room))"
    using new room f
    by (cases "x_rooms s roomId") (simp_all add: x_join_def x_broadcast_def Let_def Map_set_fresh Map_values_def)
qed

text \<open>
  Claim C2, as the code has it. A peer joins a room of which it is not yet a member
  (the registry entry of every member is keyed by that member's own id). Then, in both
  mesh relays: the joiner is appended to the room; what the handler sends is first the
  \<open>room-peers\<close> reply to the joiner, listing exactly the members registered before the
  join (so never the joiner), and then one \<open>peer-joined\<close> notice for each of those members
  whose socket is open at that moment, in registry order. Hence an existing member is
  always in the snapshot, and a notice is sent to it if and only if its socket is open:
  a member whose socket is no longer open is in the snapshot and is not notified.
\<close>

theorem join_snapshot_and_notices:
  assumes "\<forall>kp \<in> set room. peerId (snd kp) = fst kp"
    and "room = (case rooms s roomId of None \<Rightarrow> [] | Some r \<Rightarrow> r)"
    and "pid \<notin> set (Map_keys room)"
    and "\<forall>kp \<in> set xroom. x_peerId (snd kp) = fst kp"
    and "xroom = (case x_rooms xs roomId of None \<Rightarrow> [] | Some r \<Rightarrow> r)"
    and "pid \<notin> set (Map_keys xroom)"
  shows "(rooms (snd (join w roomId pid (c, s))) roomId = Some (room @ [(pid, \<lparr>peerId = pid, ws = w\<rparr>)])
        \<and> drop (length (sent s)) (sent (snd (join w roomId pid (c, s)))) =
            (w, RoomPeers (Map_keys room)) #
              map (\<lambda>p. (ws p, PeerJoined pid)) (filter (\<lambda>p. ws p \<in> openSockets s) (Map_values room))
        \<and> (\<forall>q \<in> set (Map_values room).
              peerId q \<in> set (Map_keys room) \<and>
              ((ws q, PeerJoined pid) \<in> set (drop (length (sent s)) (sent (snd (join w roomId pid (c, s))))))
                = (ws q \<in> openSockets s)))
       \<and> (x_rooms (snd (x_join w roomId pid u (xc, xs))) roomId =
            Some (xroom @ [(pid, \<lparr>x_peerId = pid, x_username = or_default u ''Anonymous'', x_ws = w,
                                  x_isScreenSharing = False\<rparr>)])
        \<and> drop (length (x_sent xs)) (x_sent (snd (x_join w roomId pid u (xc, xs)))) =
            (w, XRoomPeers (map (\<lambda>p. (x_peerId p, x_username p, x_isScreenSharing p)) (Map_values xroom))) #
              map (\<lambda>p. (x_ws p, XPeerJoined pid (or_default u ''Anonymous'')))
                (filter (\<lambda>p. x_ws p \<in> x_openSockets xs) (Map_values xroom))
        \<and> pid \<notin> fst ` set (map (\<lambda>p. (x_peerId p, x_username p, x_isScreenSharing p)) (Map_values xroom))
        \<and> (\<forall>q \<in> set (Map_values xroom).
              (x_peerId q, x_username q, x_isScreenSharing q)
                 \<in> set (map (\<lambda>p. (x_peerId p, x_username p, x_isScreenSharing p)) (Map_values xroom)) \<and>
              ((x_ws q, XPeerJoined pid (or_default u ''Anonymous''))
                 \<in> set (drop (length (x_sent xs)) (x_sent (snd (x_join w roomId pid u (xc, xs))))))
                = (x_ws q \<in> x_openSockets xs)))"
proof -
  note m = join_effect [OF assms(1,2,3), of w c]
  note x = x_join_effect [OF assms(4,5,6), of w u xc]
  have k: "\<forall>q \<in> set (Map_values room). peerId q \<in> set (Map_keys room)"
    using assms(1) by (force simp: Map_values_def Map_keys_def)
  have xk: "pid \<notin> fst ` set (map (\<lambda>p. (x_peerId p, x_username p, x_isScreenSharing p)) (Map_values xroom))"
    using assms(4,6) by (force simp: Map_values_def Map_keys_def)
  show ?thesis
    using k xk by (simp add: m x) force
qed

theorem join_snapshot_and_notices_witness:
  "(let s = \<lparr>rooms = [''r1'' \<mapsto> [(''a'', \<lparr>peerId = ''a'', ws = 1\<rparr>), (''b'', \<lparr>peerId = ''b'', ws = 2\<rparr>)]],
              openSockets = {1, 3}, sent = [], logs = []\<rparr>;
        c = \<lparr>currentRoomId = None, currentPeerId = None\<rparr>
    in sent (snd (join 3 ''r1'' ''c'' (c, s))) = [(3, RoomPeers [''a'', ''b'']), (1, PeerJoined ''c'')])
   \<and> (let xs = \<lparr>x_rooms = [''r1'' \<mapsto> [(''a'', \<lparr>x_peerId = ''a'', x_username = ''Ann'', x_ws = 1,
                                                  x_isScreenSharing = True\<rparr>)]],
               x_openSockets = {1, 3}, x_sent = [], x_logs = []\<rparr>;
         xc = \<lparr>x_currentRoomId = None, x_currentPeerId = None, x_currentUsername = ''Anonymous''\<rparr>
    in x_sent (snd (x_join 3 ''r1'' ''c'' None (xc, xs))) =
         [(3, XRoomPeers [(''a'', ''Ann'', True)]), (1, XPeerJoined ''c'' ''Anonymous'')])"
  using join_snapshot_and_notices
    [of "[(''a'', \<lparr>peerId = ''a'', ws = 1\<rparr>), (''b'', \<lparr>peerId = ''b'', ws = 2\<rparr>)]"
        "\<lparr>rooms = [''r1'' \<mapsto> [(''a'', \<lparr>peerId = ''a'', ws = 1\<rparr>), (''b'', \<lparr>peerId = ''b'', ws = 2\<rparr>)]],
              openSockets = {1, 3}, sent = [], logs = []\<rparr>"
        "''r1''" "''c''"
        "[(''a'', \<lparr>x_peerId = ''a'', x_username = ''Ann'', x_ws = 1, x_isScreenSharing = True\<rparr>)]"
        "\<lparr>x_rooms = [''r1'' \<mapsto> [(''a'', \<lparr>x_peerId = ''a'', x_username = ''Ann'', x_ws = 1,
                                                  x_isScreenSharing = True\<rparr>)]],
               x_openSockets = {1, 3}, x_sent = [], x_logs = []\<rparr>"
        3 "\<lparr>currentRoomId = None, currentPeerId = None\<rparr>" None
        "\<lparr>x_currentRoomId = None, x_currentPeerId = None, x_currentUsername = ''Anonymous''\<rparr>"]
  by (simp add: Map_keys_def Map_values_def or_default_def)

text \<open>
  The claim as the specification words it fails: member \<open>a\<close> is registered but its socket
  is no longer open when \<open>b\<close> joins. The snapshot sent to \<open>b\<close> lists \<open>a\<close>, and no
  \<open>peer-joined\<close> notice is sent to \<open>a\<close>.
\<close>

theorem join_notice_skips_closed_member_counterexample:
  "(2, RoomPeers [''a'']) \<in> set (sent (snd (join 2 ''r1'' ''b''
        (\<lparr>currentRoomId = None, currentPeerId = None\<rparr>,
         \<lparr>rooms = [''r1'' \<mapsto> [(''a'', \<lparr>peerId = ''a'', ws = 1\<rparr>)]],
          openSockets = {2}, sent = [], logs = []\<rparr>))))
   \<and> (1, PeerJoined ''b'') \<notin> set (sent (snd (join 2 ''r1'' ''b''
        (\<lparr>currentRoomId = None, currentPeerId = None\<rparr>,
         \<lparr>rooms = [''r1'' \<mapsto> [(''a'', \<lparr>peerId = ''a'', ws = 1\<rparr>)]],
          openSockets = {2}, sent = [], logs = []\<rparr>))))"
  by (simp add: join_def broadcast_def Let_def Map_keys_def Map_values_def)

section \<open>Going live and ending a broadcast\<close>

lemma start_end_unauthorised:
  assumes "\<not> (\<exists>room b. broadcasts s bid = Some room \<and> broadcaster room = Some b
                \<and> b_currentPeerId c = Some (bc_peerId b))"
  shows "b_on_message w newId (StartBroadcast bid) (c, s) = (c, s)"
    and "b_on_message w newId (EndBroadcast bid) (c, s) = (c, s)"
  using assms
  by (auto simp: b_on_message_def start_broadcast_def end_broadcast_def is_broadcaster_of_def
           split: option.splits)

lemma start_end_authorised:
  assumes "broadcasts s bid = Some room" and "broadcaster room = Some b"
    and "b_currentPeerId c = Some (bc_peerId b)"
  shows "b_on_message w newId (StartBroadcast bid) (c, s) =
           (c, s\<lparr>broadcasts := (broadcasts s)(bid \<mapsto> room\<lparr>isLive := True\<rparr>),
                  b_sent := b_sent s @ map (\<lambda>v. (v_ws v, BroadcastStarted bid))
                              (filter (\<lambda>v. v_ws v \<in> b_openSockets s) (Map_values (viewers room))),
                  b_logs := b_logs s @ [LogLive bid (Map_size (viewers room))]\<rparr>)"
    and "b_on_message w newId (EndBroadcast bid) (c, s) =
           (c, s\<lparr>broadcasts := (broadcasts s)(bid \<mapsto> room\<lparr>isLive := False\<rparr>),
                  b_sent := b_sent s @ map (\<lambda>v. (v_ws v, BroadcastEnded bid))
                              (filter (\<lambda>v. v_ws v \<in> b_openSockets s) (Map_values (viewers room))),
                  b_logs := b_logs s @ [LogEnded bid]\<rparr>)"
  using assms
  by (simp_all add: b_on_message_def start_broadcast_def end_broadcast_def is_broadcaster_of_def
        notify_viewers_def b_log_def Let_def)

text \<open>
  Claim C10. Let a \<open>start-broadcast\<close> or \<open>end-broadcast\<close> for broadcast \<open>bid\<close> arrive on a
  connection with closure variables \<open>c\<close>. If the room exists and the connection's peer id
  is the peer id of the room's broadcaster, the handler sets the room's \<open>isLive\<close> flag
  (to true for start, to false for end), leaves every other room and the connection's
  variables as they were, and sends \<open>broadcast-started\<close> or \<open>broadcast-ended\<close> to exactly
  the viewers of the room whose socket is open. In every other case the connection's
  variables and the whole server state, including what has been sent, are unchanged.
\<close>

theorem live_flag_gated_by_broadcaster:
  fixes s :: b_server
  assumes "m = StartBroadcast bid \<or> m = EndBroadcast bid"
    and "r = b_on_message w newId m (c, s)"
  shows "(if \<exists>room b. broadcasts s bid = Some room \<and> broadcaster room = Some b
                \<and> b_currentPeerId c = Some (bc_peerId b)
          then \<exists>room. broadcasts s bid = Some room
                 \<and> broadcasts (snd r) = (broadcasts s)(bid \<mapsto> room\<lparr>isLive := (m = StartBroadcast bid)\<rparr>)
                 \<and> drop (length (b_sent s)) (b_sent (snd r)) =
                     map (\<lambda>v. (v_ws v, if m = StartBroadcast bid then BroadcastStarted bid
                                        else BroadcastEnded bid))
                       (filter (\<lambda>v. v_ws v \<in> b_openSockets s) (Map_values (viewers room)))
                 \<and> fst r = c
          else r = (c, s))"
proof (cases "\<exists>room b. broadcasts s bid = Some room \<and> broadcaster room = Some b
                \<and> b_currentPeerId c = Some (bc_peerId b)")
  case True
  then obtain room b where h: "broadcasts s bid = Some room" "broadcaster room = Some b"
      "b_currentPeerId c = Some (bc_peerId b)" by blast
  show ?thesis
    using assms True start_end_authorised [OF h, of w newId] h(1) by auto
next
  case False
  then show ?thesis
    using assms start_end_unauthorised [OF False, of w newId] by auto
qed

theorem live_flag_gated_by_broadcaster_witness:
  "drop (length (b_sent ex_server))
     (b_sent (snd (b_on_message 1 [] (StartBroadcast ''B1'') (ex_broadcaster_conn, ex_server))))
     = [(2, BroadcastStarted ''B1''), (3, BroadcastStarted ''B1'')]
   \<and> b_on_message 2 [] (EndBroadcast ''B1'') (ex_viewer_conn, ex_server) = (ex_viewer_conn, ex_server)"
proof
  show "drop (length (b_sent ex_server))
     (b_sent (snd (b_on_message 1 [] (StartBroadcast ''B1'') (ex_broadcaster_conn, ex_server))))
     = [(2, BroadcastStarted ''B1''), (3, BroadcastStarted ''B1'')]"
    using live_flag_gated_by_broadcaster
      [of "StartBroadcast ''B1''" "''B1''" _ 1 "[]" ex_broadcaster_conn ex_server, OF _ refl]
    by (simp add: Map_values_def ex_server_def ex_room_def ex_broadcaster_conn_def)
  show "b_on_message 2 [] (EndBroadcast ''B1'') (ex_viewer_conn, ex_server) = (ex_viewer_conn, ex_server)"
    using live_flag_gated_by_broadcaster
      [of "EndBroadcast ''B1''" "''B1''" _ 2 "[]" ex_viewer_conn ex_server, OF _ refl]
    by (simp add: ex_server_def ex_room_def ex_viewer_conn_def)
qed

section \<open>Chat fan-out of the broadcast relay\<close>

lemma chat_message_sends:
  assumes "broadcasts s bid = Some room"
  shows "b_on_message w newId (ChatMessage bid msgText) (c, s) =
           (c, s\<lparr>b_sent := b_sent s @
                    (case broadcaster room of
                       None \<Rightarrow> []
                     | Some b \<Rightarrow>
                         if bc_ws b \<in> b_openSockets s
                         then [(bc_ws b, Chat (clock s, b_currentPeerId c) (b_currentPeerId c)
                                           (b_currentUsername c) msgText (clock s))]
                         else []) @
                    map (\<lambda>v. (v_ws v, Chat (clock s, b_currentPeerId c) (b_currentPeerId c)
                                         (b_currentUsername c) msgText (clock s)))
                      (filter (\<lambda>v. v_ws v \<in> b_openSockets s) (Map_values (viewers room)))\<rparr>)"
  using assms
  by (auto simp: b_on_message_def chat_message_def to_broadcaster_def notify_viewers_def Let_def
           split: option.splits)

text \<open>
  Claim C8, as the code has it. A \<open>chat-message\<close> for an existing broadcast changes
  nothing in the registry. With \<open>chat\<close> the envelope built from the sender's closure
  variables, the text and the clock, what the handler sends is: \<open>chat\<close> to the broadcaster
  if the room has one and its socket is open, then \<open>chat\<close> to every viewer whose socket is
  open, in registry order. Every recipient's socket is open, every member with an open
  socket is a recipient, and the sender is not left out: a viewer or broadcaster who
  sends a chat message on its open socket gets this message back.
\<close>

theorem chat_fan_out_includes_sender:
  assumes "broadcasts s bid = Some room"
    and "r = b_on_message w newId (ChatMessage bid msgText) (c, s)"
    and "chat = Chat (clock s, b_currentPeerId c) (b_currentPeerId c) (b_currentUsername c) msgText (clock s)"
    and "new = drop (length (b_sent s)) (b_sent (snd r))"
  shows "fst r = c \<and> broadcasts (snd r) = broadcasts s
       \<and> new = (case broadcaster room of
                  None \<Rightarrow> []
                | Some b \<Rightarrow> if bc_ws b \<in> b_openSockets s then [(bc_ws b, chat)] else []) @
               map (\<lambda>v. (v_ws v, chat)) (filter (\<lambda>v. v_ws v \<in> b_openSockets s) (Map_values (viewers room)))
       \<and> (\<forall>x \<in> set new. fst x \<in> b_openSockets s \<and> snd x = chat)
       \<and> (\<forall>v \<in> set (Map_values (viewers room)). v_ws v \<in> b_openSockets s \<longrightarrow> (v_ws v, chat) \<in> set new)
       \<and> (\<forall>b. broadcaster room = Some b \<and> bc_ws b \<in> b_openSockets s \<longrightarrow> (bc_ws b, chat) \<in> set new)
       \<and> ((\<exists>v \<in> set (Map_values (viewers room)). v_ws v = w) \<and> w \<in> b_openSockets s
            \<longrightarrow> (w, chat) \<in> set new)"
  using assms(2,3,4) chat_message_sends [OF assms(1), of w newId msgText c]
  by (auto split: option.splits)

theorem chat_fan_out_includes_sender_witness:
  "drop (length (b_sent ex_server))
     (b_sent (snd (b_on_message 2 [] (ChatMessage ''B1'' ''hi'') (ex_viewer_conn, ex_server))))
   = [(1, Chat (0, Some ''v'') (Some ''v'') ''Vi'' ''hi'' 0),
      (2, Chat (0, Some ''v'') (Some ''v'') ''Vi'' ''hi'' 0),
      (3, Chat (0, Some ''v'') (Some ''v'') ''Vi'' ''hi'' 0)]"
  using chat_fan_out_includes_sender
    [of ex_server "''B1''" ex_room _ 2 "[]" "''hi''" ex_viewer_conn, OF _ refl refl refl]
  by (simp add: ex_server_def ex_room_def ex_viewer_conn_def Map_values_def)

text \<open>The claim as the specification words it fails: viewer \<open>v\<close>, on socket 2, sends a chat
  message and the relay sends the resulting envelope to socket 2 as well.\<close>

theorem chat_echoed_to_sender_counterexample:
  "(2, Chat (0, Some ''v'') (Some ''v'') ''Vi'' ''hi'' 0)
     \<in> set (b_sent (snd (b_on_message 2 [] (ChatMessage ''B1'' ''hi'') (ex_viewer_conn, ex_server))))"
  by (simp add: b_on_message_def chat_message_def to_broadcaster_def notify_viewers_def Let_def
        ex_server_def ex_room_def ex_viewer_conn_def Map_values_def)

section \<open>One connection per remote peer\<close>

lemma e_create_existing: "Map_has (e_peerConnections s) P \<Longrightarrow> e_createPeerConnection P u i sdp s = s"
  by (simp add: e_createPeerConnection_def)

lemma e_create_has: "Map_has (e_peerConnections (e_createPeerConnection P u i sdp s)) P"
  by (simp add: e_createPeerConnection_def Let_def Map_has_get Map_get_set)

lemma e_create_distinct:
  "distinct (Map_keys (e_peerConnections s)) \<Longrightarrow>
   distinct (Map_keys (e_peerConnections (e_createPeerConnection P u i sdp s)))"
  by (simp add: e_createPeerConnection_def Let_def distinct_Map_set)

lemma e_create_count:
  "e_created (e_createPeerConnection P u i sdp s) = (if Map_has (e_peerConnections s) P then e_created s else e_created s + 1)"
  by (simp add: e_createPeerConnection_def Let_def)

lemma g_create_existing: "Map_has (g_peerConnections s) P \<Longrightarrow> g_createPeerConnection P i sdp s = s"
  by (simp add: g_createPeerConnection_def)

lemma g_create_has: "Map_has (g_peerConnections (g_createPeerConnection P i sdp s)) P"
  by (simp add: g_createPeerConnection_def Let_def Map_has_get Map_get_set)

lemma g_create_distinct:
  "distinct (Map_keys (g_peerConnections s)) \<Longrightarrow>
   distinct (Map_keys (g_peerConnections (g_createPeerConnection P i sdp s)))"
  by (simp add: g_createPeerConnection_def Let_def distinct_Map_set)

lemma g_create_count:
  "g_created (g_createPeerConnection P i sdp s) = (if Map_has (g_peerConnections s) P then g_created s else g_created s + 1)"
  by (simp add: g_createPeerConnection_def Let_def)

lemma bw_create_existing: "Map_has (bw_peerConnections s) P \<Longrightarrow> createConnectionForViewer P u sdp s = s"
  by (simp add: createConnectionForViewer_def)

lemma bw_create_has: "Map_has (bw_peerConnections (createConnectionForViewer P u sdp s)) P"
  by (simp add: createConnectionForViewer_def Let_def Map_has_get Map_get_set signaling_send_def)

lemma bw_create_distinct:
  "distinct (Map_keys (bw_peerConnections s)) \<Longrightarrow>
   distinct (Map_keys (bw_peerConnections (createConnectionForViewer P u sdp s)))"
  by (simp add: createConnectionForViewer_def Let_def distinct_Map_set signaling_send_def)

lemma bw_create_count:
  "created (createConnectionForViewer P u sdp s) = (if Map_has (bw_peerConnections s) P then created s else created s + 1)"
  by (simp add: createConnectionForViewer_def Let_def signaling_send_def)

text \<open>
  Claim C3. In the expanded call (\<open>createPeerConnection\<close>), in the broadcast
  (\<open>createConnectionForViewer\<close>) and in the group call: asking twice for a connection
  to the same remote peer gives exactly the state the first request gave, whatever the
  arguments of the second request; a request for a peer that already has a connection
  changes nothing; the two requests together construct one \<open>RTCPeerConnection\<close> if the
  peer had none and none if it had one; and a connection table with one entry per key
  has, after the request, exactly one entry for the peer.
\<close>

theorem one_connection_per_remote_peer:
  "e_createPeerConnection P u' i' sdp' (e_createPeerConnection P u i sdp es) = e_createPeerConnection P u i sdp es
   \<and> (Map_has (e_peerConnections es) P \<longrightarrow> e_createPeerConnection P u i sdp es = es)
   \<and> e_created (e_createPeerConnection P u' i' sdp' (e_createPeerConnection P u i sdp es))
        = (if Map_has (e_peerConnections es) P then e_created es else e_created es + 1)
   \<and> (distinct (Map_keys (e_peerConnections es)) \<longrightarrow>
        length (filter (\<lambda>kv. fst kv = P) (e_peerConnections (e_createPeerConnection P u i sdp es))) = 1)
   \<and> createConnectionForViewer P u' sdp' (createConnectionForViewer P u sdp bs) = createConnectionForViewer P u sdp bs
   \<and> (Map_has (bw_peerConnections bs) P \<longrightarrow> createConnectionForViewer P u sdp bs = bs)
   \<and> created (createConnectionForViewer P u' sdp' (createConnectionForViewer P u sdp bs))
        = (if Map_has (bw_peerConnections bs) P then created bs else created bs + 1)
   \<and> (distinct (Map_keys (bw_peerConnections bs)) \<longrightarrow>
        length (filter (\<lambda>kv. fst kv = P) (bw_peerConnections (createConnectionForViewer P u sdp bs))) = 1)
   \<and> g_createPeerConnection P i' sdp' (g_createPeerConnection P i sdp gs) = g_createPeerConnection P i sdp gs
   \<and> (Map_has (g_peerConnections gs) P \<longrightarrow> g_createPeerConnection P i sdp gs = gs)
   \<and> g_created (g_createPeerConnection P i' sdp' (g_createPeerConnection P i sdp gs))
        = (if Map_has (g_peerConnections gs) P then g_created gs else g_created gs + 1)
   \<and> (distinct (Map_keys (g_peerConnections gs)) \<longrightarrow>
        length (filter (\<lambda>kv. fst kv = P) (g_peerConnections (g_createPeerConnection P i sdp gs))) = 1)"
proof -
  have one: "\<And>m :: (string \<times> RTCPeerConnection) list. distinct (Map_keys m) \<Longrightarrow> Map_has m P \<Longrightarrow>
               length (filter (\<lambda>kv. fst kv = P) m) = 1"
  proof -
    fix m :: "(string \<times> RTCPeerConnection) list"
    show "distinct (Map_keys m) \<Longrightarrow> Map_has m P \<Longrightarrow> length (filter (\<lambda>kv. fst kv = P) m) = 1"
    proof (induction m)
      case Nil
      then show ?case by (simp add: Map_has_def)
    next
      case (Cons a m)
      show ?case
      proof (cases "fst a = P")
        case True
        with Cons.prems have "P \<notin> fst ` set m" by (simp add: Map_keys_def)
        then have "filter (\<lambda>kv. fst kv = P) m = []" by (auto simp: filter_empty_conv)
        with True show ?thesis by simp
      next
        case False
        with Cons show ?thesis by (cases a) (auto simp: Map_keys_def Map_has_def)
      qed
    qed
  qed
  show ?thesis
    by (simp add: e_create_existing e_create_has e_create_count e_create_distinct
          g_create_existing g_create_has g_create_count g_create_distinct
          bw_create_existing bw_create_has bw_create_count bw_create_distinct one)
qed

theorem one_connection_per_remote_peer_witness:
  "e_createPeerConnection ''v'' ''Vi'' False ''o2'' (e_createPeerConnection ''v'' ''Vi'' True ''o'' (e_init ''me''))
     = e_createPeerConnection ''v'' ''Vi'' True ''o'' (e_init ''me'')
   \<and> length (filter (\<lambda>kv. fst kv = ''v'')
          (e_peerConnections (e_createPeerConnection ''v'' ''Vi'' True ''o'' (e_init ''me'')))) = 1
   \<and> createConnectionForViewer ''v'' ''Vi'' ''o2'' (createConnectionForViewer ''v'' ''Vi'' ''o'' ex_page)
     = createConnectionForViewer ''v'' ''Vi'' ''o'' ex_page
   \<and> length (filter (\<lambda>kv. fst kv = ''v'')
          (bw_peerConnections (createConnectionForViewer ''v'' ''Vi'' ''o'' ex_page))) = 1"
  using one_connection_per_remote_peer
    [where P = "''v''" and u = "''Vi''" and u' = "''Vi''" and i = True and i' = False
       and sdp = "''o''" and sdp' = "''o2''" and es = "e_init ''me''" and bs = ex_page and gs = g_init]
  by (simp add: e_init_def ex_page_def g_init_def Map_has_def Map_keys_def)

section \<open>Connectivity failure\<close>

lemma onconnectionstatechange_failed_n:
  "(onconnectionstatechange StFailed ^^ n) pc =
     (if n = 0 then pc else pc\<lparr>connectionState := StFailed, iceRestarts := iceRestarts pc + n\<rparr>)"
  by (induction n) (auto simp: onconnectionstatechange_def restartIce_def Let_def)

lemma onconnectionstatechange_other:
  "st \<noteq> StFailed \<Longrightarrow> onconnectionstatechange st pc = pc\<lparr>connectionState := st\<rparr>"
  by (simp add: onconnectionstatechange_def Let_def)

lemma g_state_event_get:
  "Map_get (g_peerConnections (g_connection_state_event P st s)) Q =
     (if Q = P then map_option (onconnectionstatechange st) (Map_get (g_peerConnections s) P)
      else Map_get (g_peerConnections s) Q)"
  by (auto simp: g_connection_state_event_def Map_get_set split: option.splits)

lemma g_state_event_rest:
  "g_pendingCandidates (g_connection_state_event P st s) = g_pendingCandidates s"
  "g_remotePeers (g_connection_state_event P st s) = g_remotePeers s"
  "g_signaled (g_connection_state_event P st s) = g_signaled s"
  "g_created (g_connection_state_event P st s) = g_created s"
  by (simp_all add: g_connection_state_event_def split: option.splits)

lemma g_failed_n:
  "Map_get (g_peerConnections ((g_connection_state_event P StFailed ^^ n) s)) P =
     map_option (onconnectionstatechange StFailed ^^ n) (Map_get (g_peerConnections s) P)
   \<and> g_pendingCandidates ((g_connection_state_event P StFailed ^^ n) s) = g_pendingCandidates s
   \<and> g_remotePeers ((g_connection_state_event P StFailed ^^ n) s) = g_remotePeers s
   \<and> g_signaled ((g_connection_state_event P StFailed ^^ n) s) = g_signaled s"
proof (induction n)
  case 0
  show ?case by (simp add: option.map_ident)
next
  case (Suc n)
  then show ?case
    by (simp add: g_state_event_get g_state_event_rest option.map_comp comp_def)
qed

lemma e_state_event_get:
  "Map_get (e_peerConnections (e_connection_state_event P st s)) Q =
     (if Q = P then map_option (onconnectionstatechange st) (Map_get (e_peerConnections s) P)
      else Map_get (e_peerConnections s) Q)"
  by (auto simp: e_connection_state_event_def Map_get_set split: option.splits)

lemma e_state_event_rest:
  "e_pendingCandidates (e_connection_state_event P st s) = e_pendingCandidates s"
  "e_remotePeers (e_connection_state_event P st s) = e_remotePeers s"
  "e_signaled (e_connection_state_event P st s) = e_signaled s"
  "e_created (e_connection_state_event P st s) = e_created s"
  by (simp_all add: e_connection_state_event_def split: option.splits)

lemma e_failed_n:
  "Map_get (e_peerConnections ((e_connection_state_event P StFailed ^^ n) s)) P =
     map_option (onconnectionstatechange StFailed ^^ n) (Map_get (e_peerConnections s) P)
   \<and> e_pendingCandidates ((e_connection_state_event P StFailed ^^ n) s) = e_pendingCandidates s
   \<and> e_remotePeers ((e_connection_state_event P StFailed ^^ n) s) = e_remotePeers s
   \<and> e_signaled ((e_connection_state_event P StFailed ^^ n) s) = e_signaled s"
proof (induction n)
  case 0
  show ?case by (simp add: option.map_ident)
next
  case (Suc n)
  then show ?case
    by (simp add: e_state_event_get e_state_event_rest option.map_comp comp_def)
qed

text \<open>
  Claim C4, as the code has it. Every report of the connectivity state \<open>failed\<close> makes
  the hook call \<open>restartIce\<close> on the connection, in place: after \<open>n > 0\<close> such reports
  the connection of peer \<open>P\<close> is the same instance with the same descriptions and
  candidates, not closed, with \<open>n\<close> more restarts; the candidate queue, the list of
  remote peers shown to the application and the envelopes sent are unchanged. There is
  no bound on the restarts, no teardown and no report to the application. Any other
  state only updates the recorded connectivity state. The group call and the expanded call
  install the same callback.
\<close>

theorem ice_restart_on_every_failure:
  "(Map_get (g_peerConnections gs) P = Some pc \<and> 0 < n \<longrightarrow>
      Map_get (g_peerConnections ((g_connection_state_event P StFailed ^^ n) gs)) P
        = Some (pc\<lparr>connectionState := StFailed, iceRestarts := iceRestarts pc + n\<rparr>)
    \<and> g_pendingCandidates ((g_connection_state_event P StFailed ^^ n) gs) = g_pendingCandidates gs
    \<and> g_remotePeers ((g_connection_state_event P StFailed ^^ n) gs) = g_remotePeers gs
    \<and> g_signaled ((g_connection_state_event P StFailed ^^ n) gs) = g_signaled gs)
   \<and> (Map_get (g_peerConnections gs) P = Some pc \<and> st \<noteq> StFailed \<longrightarrow>
        Map_get (g_peerConnections (g_connection_state_event P st gs)) P = Some (pc\<lparr>connectionState := st\<rparr>))
   \<and> (Map_get (e_peerConnections es) P = Some pc \<and> 0 < n \<longrightarrow>
      Map_get (e_peerConnections ((e_connection_state_event P StFailed ^^ n) es)) P
        = Some (pc\<lparr>connectionState := StFailed, iceRestarts := iceRestarts pc + n\<rparr>)
    \<and> e_pendingCandidates ((e_connection_state_event P StFailed ^^ n) es) = e_pendingCandidates es
    \<and> e_remotePeers ((e_connection_state_event P StFailed ^^ n) es) = e_remotePeers es
    \<and> e_signaled ((e_connection_state_event P StFailed ^^ n) es) = e_signaled es)
   \<and> (Map_get (e_peerConnections es) P = Some pc \<and> st \<noteq> StFailed \<longrightarrow>
        Map_get (e_peerConnections (e_connection_state_event P st es)) P = Some (pc\<lparr>connectionState := st\<rparr>))"
  by (simp add: g_failed_n e_failed_n onconnectionstatechange_failed_n g_state_event_get
        e_state_event_get onconnectionstatechange_other)

theorem ice_restart_on_every_failure_witness:
  "map_option iceRestarts
     (Map_get (g_peerConnections ((g_connection_state_event ''b'' StFailed ^^ 3) ex_g_client)) ''b'') = Some 3
   \<and> g_remotePeers ((g_connection_state_event ''b'' StFailed ^^ 3) ex_g_client) = [''b'']
   \<and> map_option connectionState
     (Map_get (e_peerConnections (e_connection_state_event ''b'' StDisconnected ex_e_client)) ''b'')
       = Some StDisconnected"
  using ice_restart_on_every_failure
    [where gs = ex_g_client and es = ex_e_client and P = "''b''" and n = 3 and st = StDisconnected
       and pc = "setLocalDescription ''o'' (new_RTCPeerConnection 0)"]
  by (simp add: ex_g_client_def ex_e_client_def g_createPeerConnection_def e_createPeerConnection_def
        g_init_def e_init_def Let_def Map_has_def Map_get_def setLocalDescription_def
        new_RTCPeerConnection_def)

text \<open>The claim as the specification words it fails: the connection to \<open>b\<close> reports
  \<open>failed\<close> twice; the hook restarts ICE a second time, the connection is not closed and
  \<open>b\<close> is still among the remote peers.\<close>

theorem second_failure_restarts_again_counterexample:
  "map_option iceRestarts
     (Map_get (g_peerConnections
        (g_connection_state_event ''b'' StFailed (g_connection_state_event ''b'' StFailed ex_g_client))) ''b'')
     = Some 2
   \<and> map_option isClosed
     (Map_get (g_peerConnections
        (g_connection_state_event ''b'' StFailed (g_connection_state_event ''b'' StFailed ex_g_client))) ''b'')
     = Some False
   \<and> g_remotePeers (g_connection_state_event ''b'' StFailed (g_connection_state_event ''b'' StFailed ex_g_client))
     = [''b'']"
  by (simp add: ex_g_client_def g_createPeerConnection_def g_connection_state_event_def
        g_init_def Let_def Map_has_def Map_get_def setLocalDescription_def
        new_RTCPeerConnection_def onconnectionstatechange_def restartIce_def)

section \<open>Leaving a broadcast twice\<close>

lemma removeViewer_twice:
  "bw_viewers (removeViewer v (removeViewer v s)) = bw_viewers (removeViewer v s)
   \<and> bw_peerConnections (removeViewer v (removeViewer v s)) = bw_peerConnections (removeViewer v s)
   \<and> bw_viewerCount (removeViewer v (removeViewer v s)) = max 0 (bw_viewerCount (removeViewer v s) - 1)"
  by (auto simp: removeViewer_def Let_def Map_get_delete Map_delete_def split: option.splits)

lemma leave_then_close_membership:
  assumes "broadcasts s bid = Some room" and "currentBroadcastId c = Some bid"
    and "b_currentPeerId c = Some pid" and "currentRole c = Some Viewer"
  shows "map_option viewers (broadcasts (snd (b_on_close (leave_broadcast bid pid (c, s)))) bid)
           = map_option viewers (broadcasts (snd (leave_broadcast bid pid (c, s))) bid)"
  using assms
  by (auto simp: b_on_close_def leave_broadcast_def Let_def to_broadcaster_def b_log_def
        Map_delete_def split: option.splits)

text \<open>
  Claim C9 evaluated on the code. Viewer \<open>v\<close> leaves broadcast \<open>B1\<close>, which has the
  viewers \<open>v\<close> and \<open>u\<close>: its page sends \<open>leave-broadcast\<close> and closes its socket. The
  relay removes \<open>v\<close> from the room once (the second cleanup finds nothing to remove), but
  it sends \<open>viewer-left\<close> and \<open>viewer-count\<close> to the broadcaster for the leave and again
  for the close. The broadcaster's page runs \<open>removeViewer\<close> for each \<open>viewer-left\<close>: its
  viewer list is \<open>[u]\<close> after the first and after the second, but its viewer count goes
  from 2 to 1 and then to 0 while \<open>u\<close> is still connected.
\<close>

theorem double_leave_decrements_viewer_count_twice:
  "signaled (handleLeaveBroadcast ex_viewer_page) = [LeaveBroadcast ''B1'' ''v'']
   \<and> \<not> wsOpen (handleLeaveBroadcast ex_viewer_page)
   \<and> delivered_to 1 (b_sent (server (b_run [EvMessage 2 [] (LeaveBroadcast ''B1'' ''v''), EvClose 2] ex_system)))
       = [ViewerLeft ''v'', ViewerCount 1, ViewerLeft ''v'', ViewerCount 1]
   \<and> map_option (\<lambda>r. Map_keys (viewers r))
        (broadcasts (server (b_run [EvMessage 2 [] (LeaveBroadcast ''B1'' ''v''), EvClose 2] ex_system)) ''B1'')
       = Some [''u'']
   \<and> bw_viewerCount ex_live_page = 2
   \<and> bw_viewers (receive_all [ViewerLeft ''v'', ViewerCount 1, ViewerLeft ''v'', ViewerCount 1] [] ex_live_page)
       = [(''u'', ''Uma'')]
   \<and> bw_viewerCount (receive_all [ViewerLeft ''v'', ViewerCount 1, ViewerLeft ''v'', ViewerCount 1] [] ex_live_page)
       = 0"
  by code_simp

section \<open>References to unknown rooms and peers\<close>

lemma mesh_unknown_dropped:
  assumes "currentRoomId c = None
         \<or> (\<exists>r. currentRoomId c = Some r \<and> rooms s r = None)
         \<or> (\<exists>r room. currentRoomId c = Some r \<and> rooms s r = Some room \<and> Map_get room to = None)"
  shows "on_message w (Signal k to body) (c, s) = (c, s)"
  using assms by (auto simp: on_message_def forwardToPeer_def)

lemma broadcast_unknown_dropped:
  assumes "broadcasts s bid = None"
  shows "b_on_message w newId (StartBroadcast bid) (c, s) = (c, s)"
    and "b_on_message w newId (EndBroadcast bid) (c, s) = (c, s)"
    and "b_on_message w newId (LeaveBroadcast bid pid) (c, s) = (c, s)"
    and "b_on_message w newId (ChatMessage bid msgText) (c, s) = (c, s)"
    and "b_on_message w newId (JoinBroadcast bid pid u) (c, s) =
           (c, s\<lparr>b_sent := b_sent s @ [(w, Error ''Broadcast not found'')]\<rparr>)"
  using assms
  by (simp_all add: b_on_message_def start_broadcast_def end_broadcast_def leave_broadcast_def
        chat_message_def join_broadcast_def b_send_def)

lemma relay_without_room_dropped:
  assumes "current_room c s = None"
  shows "b_on_message w newId (OfferTo to sdp) (c, s) = (c, s)"
    and "b_on_message w newId (AnswerTo to sdp) (c, s) = (c, s)"
    and "b_on_message w newId (IceCandidateTo to sdp) (c, s) = (c, s)"
  using assms
  by (simp_all add: b_on_message_def relay_offer_def relay_answer_def relay_ice_candidate_def)

lemma relay_unknown_viewer_dropped:
  assumes "current_room c s = Some room" and "Map_get (viewers room) to = None"
  shows "b_on_message w newId (OfferTo to sdp) (c, s) = (c, s)"
    and "currentRole c = Some Broadcaster \<Longrightarrow> b_on_message w newId (IceCandidateTo to sdp) (c, s) = (c, s)"
  using assms
  by (simp_all add: b_on_message_def relay_offer_def relay_ice_candidate_def to_viewer_def)

lemma Map_delete_absent: "Map_get m k = None \<Longrightarrow> Map_delete k m = m"
  by (induction m) (auto simp: Map_get_def Map_delete_def split: if_splits)

lemma leave_unknown_peer_notifies:
  assumes "broadcasts s bid = Some room" and "Map_get (viewers room) pid = None"
  shows "b_on_message w newId (LeaveBroadcast bid pid) (c, s) =
           (c, s\<lparr>b_sent := b_sent s @
                    (case broadcaster room of
                       None \<Rightarrow> []
                     | Some b \<Rightarrow>
                         if bc_ws b \<in> b_openSockets s
                         then [(bc_ws b, ViewerLeft pid), (bc_ws b, ViewerCount (Map_size (viewers room)))]
                         else []),
                  b_logs := b_logs s @ [LogViewerLeft (b_currentUsername c) bid (Map_size (viewers room))]\<rparr>)"
proof -
  have v: "room\<lparr>viewers := Map_delete pid (viewers room)\<rparr> = room"
    using Map_delete_absent [OF assms(2)] by simp
  have m: "(broadcasts s)(bid \<mapsto> room) = broadcasts s"
    using assms(1) by (simp add: fun_upd_idem)
  show ?thesis
    using assms(1)
    by (auto simp: b_on_message_def leave_broadcast_def Let_def v m to_broadcaster_def b_log_def
             Map_delete_absent [OF assms(2)] split: option.splits)
qed

lemma answer_ignores_addressee:
  assumes "current_room c s = Some room"
  shows "b_on_message w newId (AnswerTo to sdp) (c, s) =
           (c, s\<lparr>b_sent := b_sent s @
                    (case broadcaster room of
                       None \<Rightarrow> []
                     | Some b \<Rightarrow>
                         if bc_ws b \<in> b_openSockets s
                         then [(bc_ws b, AnswerFrom (b_currentPeerId c) sdp)] else [])\<rparr>)"
    and "currentRole c \<noteq> Some Broadcaster \<Longrightarrow>
         b_on_message w newId (IceCandidateTo to sdp) (c, s) =
           (c, s\<lparr>b_sent := b_sent s @
                    (case broadcaster room of
                       None \<Rightarrow> []
                     | Some b \<Rightarrow>
                         if bc_ws b \<in> b_openSockets s
                         then [(bc_ws b, IceCandidateFrom (b_currentPeerId c) sdp)] else [])\<rparr>)"
  using assms
  by (auto simp: b_on_message_def relay_answer_def relay_ice_candidate_def to_broadcaster_def
           split: option.splits)

lemma mesh_join_creates_room:
  "rooms ms r = None \<Longrightarrow>
     rooms (snd (on_message w (Join r pid) (mc, ms))) r = Some [(pid, \<lparr>peerId = pid, ws = w\<rparr>)]"
  by (simp add: on_message_def join_def broadcast_def Let_def)

text \<open>
  Claim C5, as the code has it, for the relay of the group call and the relay of the
  broadcast. An envelope that refers to something unknown is dropped in these cases: the
  connection's variables and the whole server state (registry, open sockets, sent
  envelopes, log) stay as they were, so nothing is logged and nothing is sent:
  \<^item> group call: a signal whose sender has joined no room, whose room no longer exists
    or whose addressee is not in the room;
  \<^item> broadcast: \<open>start-broadcast\<close>, \<open>end-broadcast\<close>, \<open>leave-broadcast\<close> and \<open>chat-message\<close>
    naming an unknown broadcast; an offer, answer or candidate from a connection without
    a current room; an offer, or a candidate from a broadcaster's connection, addressed
    to an unknown viewer.

  In the other cases the envelope is not dropped:
  \<^item> \<open>join\<close> naming an unknown room of the group call creates the room with the joiner
    as its only member;
  \<^item> \<open>join-broadcast\<close> naming an unknown broadcast is answered to the sender with the
    error envelope \<open>Broadcast not found\<close>, and nothing else changes;
  \<^item> \<open>leave-broadcast\<close> naming a known broadcast and a peer that is not one of its viewers
    leaves the registry as it was, but still sends \<open>viewer-left\<close> and \<open>viewer-count\<close> to the
    broadcaster if its socket is open, and writes its log entry;
  \<^item> an answer, and a candidate from a connection that is not a broadcaster's, are sent
    to the broadcaster of the sender's current room if its socket is open, whatever peer
    their \<open>to\<close> field names.
\<close>

theorem unknown_reference_dropped:
  "((currentRoomId mc = None
       \<or> (\<exists>r. currentRoomId mc = Some r \<and> rooms ms r = None)
       \<or> (\<exists>r room. currentRoomId mc = Some r \<and> rooms ms r = Some room \<and> Map_get room to = None))
      \<longrightarrow> on_message w (Signal k to body) (mc, ms) = (mc, ms))
   \<and> (rooms ms r = None \<longrightarrow>
         rooms (snd (on_message w (Join r pid) (mc, ms))) r = Some [(pid, \<lparr>peerId = pid, ws = w\<rparr>)])
   \<and> (broadcasts s bid = None \<longrightarrow>
         b_on_message w newId (StartBroadcast bid) (c, s) = (c, s)
       \<and> b_on_message w newId (EndBroadcast bid) (c, s) = (c, s)
       \<and> b_on_message w newId (LeaveBroadcast bid pid) (c, s) = (c, s)
       \<and> b_on_message w newId (ChatMessage bid msgText) (c, s) = (c, s)
       \<and> b_on_message w newId (JoinBroadcast bid pid u) (c, s) =
           (c, s\<lparr>b_sent := b_sent s @ [(w, Error ''Broadcast not found'')]\<rparr>))
   \<and> ((currentBroadcastId c = None \<or> (\<exists>b. currentBroadcastId c = Some b \<and> broadcasts s b = None)) \<longrightarrow>
         b_on_message w newId (OfferTo to sdp) (c, s) = (c, s)
       \<and> b_on_message w newId (AnswerTo to sdp) (c, s) = (c, s)
       \<and> b_on_message w newId (IceCandidateTo to sdp) (c, s) = (c, s))
   \<and> ((\<exists>b room. currentBroadcastId c = Some b \<and> broadcasts s b = Some room
                \<and> Map_get (viewers room) to = None) \<longrightarrow>
         b_on_message w newId (OfferTo to sdp) (c, s) = (c, s)
       \<and> (currentRole c = Some Broadcaster \<longrightarrow> b_on_message w newId (IceCandidateTo to sdp) (c, s) = (c, s)))
   \<and> (\<forall>room. broadcasts s bid = Some room \<and> Map_get (viewers room) pid = None \<longrightarrow>
         b_on_message w newId (LeaveBroadcast bid pid) (c, s) =
           (c, s\<lparr>b_sent := b_sent s @
                    (case broadcaster room of
                       None \<Rightarrow> []
                     | Some b \<Rightarrow>
                         if bc_ws b \<in> b_openSockets s
                         then [(bc_ws b, ViewerLeft pid), (bc_ws b, ViewerCount (Map_size (viewers room)))]
                         else []),
                  b_logs := b_logs s @ [LogViewerLeft (b_currentUsername c) bid (Map_size (viewers room))]\<rparr>))
   \<and> (\<forall>b room. currentBroadcastId c = Some b \<and> broadcasts s b = Some room \<longrightarrow>
         b_on_message w newId (AnswerTo to sdp) (c, s) =
           (c, s\<lparr>b_sent := b_sent s @
                    (case broadcaster room of
                       None \<Rightarrow> []
                     | Some b \<Rightarrow>
                         if bc_ws b \<in> b_openSockets s
                         then [(bc_ws b, AnswerFrom (b_currentPeerId c) sdp)] else [])\<rparr>)
       \<and> (currentRole c \<noteq> Some Broadcaster \<longrightarrow>
            b_on_message w newId (IceCandidateTo to sdp) (c, s) =
              (c, s\<lparr>b_sent := b_sent s @
                       (case broadcaster room of
                          None \<Rightarrow> []
                        | Some b \<Rightarrow>
                            if bc_ws b \<in> b_openSockets s
                            then [(bc_ws b, IceCandidateFrom (b_currentPeerId c) sdp)] else [])\<rparr>)))"
proof -
  have a: "(currentBroadcastId c = None \<or> (\<exists>b. currentBroadcastId c = Some b \<and> broadcasts s b = None))
             \<Longrightarrow> current_room c s = None"
    by (auto simp: current_room_def)
  have b: "(\<exists>b room. currentBroadcastId c = Some b \<and> broadcasts s b = Some room
                \<and> Map_get (viewers room) to = None)
             \<Longrightarrow> \<exists>room. current_room c s = Some room \<and> Map_get (viewers room) to = None"
    by (auto simp: current_room_def)
  have cr: "\<And>b room. currentBroadcastId c = Some b \<and> broadcasts s b = Some room
             \<Longrightarrow> current_room c s = Some room"
    by (auto simp: current_room_def)
  note r1 = relay_without_room_dropped [where c = c and s = s and w = w and newId = newId and to = to and sdp = sdp]
  note r2 = relay_unknown_viewer_dropped [where c = c and s = s and w = w and newId = newId and to = to and sdp = sdp]
  note r3 = answer_ignores_addressee [where c = c and s = s and w = w and newId = newId and to = to and sdp = sdp]
  have 1: "(currentRoomId mc = None
       \<or> (\<exists>r. currentRoomId mc = Some r \<and> rooms ms r = None)
       \<or> (\<exists>r room. currentRoomId mc = Some r \<and> rooms ms r = Some room \<and> Map_get room to = None))
      \<longrightarrow> on_message w (Signal k to body) (mc, ms) = (mc, ms)"
    using mesh_unknown_dropped by blast
  have 2: "broadcasts s bid = None \<longrightarrow>
         b_on_message w newId (StartBroadcast bid) (c, s) = (c, s)
       \<and> b_on_message w newId (EndBroadcast bid) (c, s) = (c, s)
       \<and> b_on_message w newId (LeaveBroadcast bid pid) (c, s) = (c, s)
       \<and> b_on_message w newId (ChatMessage bid msgText) (c, s) = (c, s)
       \<and> b_on_message w newId (JoinBroadcast bid pid u) (c, s) =
           (c, s\<lparr>b_sent := b_sent s @ [(w, Error ''Broadcast not found'')]\<rparr>)"
    by (simp add: broadcast_unknown_dropped)
  have 3: "(currentBroadcastId c = None \<or> (\<exists>b. currentBroadcastId c = Some b \<and> broadcasts s b = None)) \<longrightarrow>
         b_on_message w newId (OfferTo to sdp) (c, s) = (c, s)
       \<and> b_on_message w newId (AnswerTo to sdp) (c, s) = (c, s)
       \<and> b_on_message w newId (IceCandidateTo to sdp) (c, s) = (c, s)"
    using a r1 by blast
  have 4: "(\<exists>b room. currentBroadcastId c = Some b \<and> broadcasts s b = Some room
                \<and> Map_get (viewers room) to = None) \<longrightarrow>
         b_on_message w newId (OfferTo to sdp) (c, s) = (c, s)
       \<and> (currentRole c = Some Broadcaster \<longrightarrow> b_on_message w newId (IceCandidateTo to sdp) (c, s) = (c, s))"
    using b r2 by blast
  have 5: "rooms ms r = None \<longrightarrow>
         rooms (snd (on_message w (Join r pid) (mc, ms))) r = Some [(pid, \<lparr>peerId = pid, ws = w\<rparr>)]"
    by (simp add: mesh_join_creates_room)
  have 6: "\<forall>room. broadcasts s bid = Some room \<and> Map_get (viewers room) pid = None \<longrightarrow>
         b_on_message w newId (LeaveBroadcast bid pid) (c, s) =
           (c, s\<lparr>b_sent := b_sent s @
                    (case broadcaster room of
                       None \<Rightarrow> []
                     | Some b \<Rightarrow>
                         if bc_ws b \<in> b_openSockets s
                         then [(bc_ws b, ViewerLeft pid), (bc_ws b, ViewerCount (Map_size (viewers room)))]
                         else []),
                  b_logs := b_logs s @ [LogViewerLeft (b_currentUsername c) bid (Map_size (viewers room))]\<rparr>)"
    using leave_unknown_peer_notifies by blast
  have 7: "\<forall>b room. currentBroadcastId c = Some b \<and> broadcasts s b = Some room \<longrightarrow>
         b_on_message w newId (AnswerTo to sdp) (c, s) =
           (c, s\<lparr>b_sent := b_sent s @
                    (case broadcaster room of
                       None \<Rightarrow> []
                     | Some b \<Rightarrow>
                         if bc_ws b \<in> b_openSockets s
                         then [(bc_ws b, AnswerFrom (b_currentPeerId c) sdp)] else [])\<rparr>)
       \<and> (currentRole c \<noteq> Some Broadcaster \<longrightarrow>
            b_on_message w newId (IceCandidateTo to sdp) (c, s) =
              (c, s\<lparr>b_sent := b_sent s @
                       (case broadcaster room of
                          None \<Rightarrow> []
                        | Some b \<Rightarrow>
                            if bc_ws b \<in> b_openSockets s
                            then [(bc_ws b, IceCandidateFrom (b_currentPeerId c) sdp)] else [])\<rparr>))"
    using cr r3 by blast
  show ?thesis
    using 1 2 3 4 5 6 7 by blast
qed

theorem unknown_reference_dropped_witness:
  "on_message 1 (Signal offer ''z'' ''sdp'') (ex_mesh_conn, ex_mesh_server) = (ex_mesh_conn, ex_mesh_server)
   \<and> b_on_message 2 [] (LeaveBroadcast ''ZZ'' ''v'') (ex_viewer_conn, ex_server) = (ex_viewer_conn, ex_server)
   \<and> b_on_message 9 [] (OfferTo ''v'' ''sdp'') (new_conn, ex_server) = (new_conn, ex_server)
   \<and> b_on_message 1 [] (OfferTo ''z'' ''sdp'') (ex_broadcaster_conn, ex_server) = (ex_broadcaster_conn, ex_server)
   \<and> b_sent (snd (b_on_message 2 [] (LeaveBroadcast ''B1'' ''z'') (ex_viewer_conn, ex_server)))
       = [(1, ViewerLeft ''z''), (1, ViewerCount 2)]
   \<and> b_sent (snd (b_on_message 2 [] (AnswerTo ''z'' ''sdp'') (ex_viewer_conn, ex_server)))
       = [(1, AnswerFrom (Some ''v'') ''sdp'')]
   \<and> b_sent (snd (b_on_message 2 [] (IceCandidateTo ''z'' ''cand'') (ex_viewer_conn, ex_server)))
       = [(1, IceCandidateFrom (Some ''v'') ''cand'')]"
proof -
  note t1 = unknown_reference_dropped
    [where mc = ex_mesh_conn and ms = ex_mesh_server and to = "''z''" and w = 1 and k = offer
       and body = "''sdp''" and r = "''r9''" and pid = "''v''" and s = ex_server and bid = "''ZZ''"
       and newId = "[]" and c = ex_broadcaster_conn and sdp = "''sdp''" and msgText = "[]" and u = None]
  note t2 = unknown_reference_dropped
    [where mc = ex_mesh_conn and ms = ex_mesh_server and to = "''v''" and w = 2 and k = offer
       and body = "''sdp''" and r = "''r9''" and pid = "''v''" and s = ex_server and bid = "''ZZ''"
       and newId = "[]" and c = ex_viewer_conn and sdp = "''sdp''" and msgText = "[]" and u = None]
  note t3 = unknown_reference_dropped
    [where mc = ex_mesh_conn and ms = ex_mesh_server and to = "''v''" and w = 9 and k = offer
       and body = "''sdp''" and r = "''r9''" and pid = "''v''" and s = ex_server and bid = "''ZZ''"
       and newId = "[]" and c = new_conn and sdp = "''sdp''" and msgText = "[]" and u = None]
  note t4 = unknown_reference_dropped
    [where mc = ex_mesh_conn and ms = ex_mesh_server and to = "''z''" and w = 2 and k = offer
       and body = "''sdp''" and r = "''r9''" and pid = "''z''" and s = ex_server and bid = "''B1''"
       and newId = "[]" and c = ex_viewer_conn and sdp = "''sdp''" and msgText = "[]" and u = None]
  note t5 = unknown_reference_dropped
    [where mc = ex_mesh_conn and ms = ex_mesh_server and to = "''z''" and w = 2 and k = offer
       and body = "''sdp''" and r = "''r9''" and pid = "''z''" and s = ex_server and bid = "''B1''"
       and newId = "[]" and c = ex_viewer_conn and sdp = "''cand''" and msgText = "[]" and u = None]
  have d: "on_message 1 (Signal offer ''z'' ''sdp'') (ex_mesh_conn, ex_mesh_server) = (ex_mesh_conn, ex_mesh_server)"
      "b_on_message 1 [] (OfferTo ''z'' ''sdp'') (ex_broadcaster_conn, ex_server) = (ex_broadcaster_conn, ex_server)"
    using t1
    by (simp_all add: ex_mesh_conn_def ex_mesh_server_def ex_server_def ex_room_def
          ex_broadcaster_conn_def Map_get_def)
  have e: "b_on_message 2 [] (LeaveBroadcast ''ZZ'' ''v'') (ex_viewer_conn, ex_server) = (ex_viewer_conn, ex_server)"
    using t2 by (simp add: ex_server_def)
  have f: "b_on_message 9 [] (OfferTo ''v'' ''sdp'') (new_conn, ex_server) = (new_conn, ex_server)"
    using t3 by (simp add: new_conn_def)
  have g: "b_sent (snd (b_on_message 2 [] (LeaveBroadcast ''B1'' ''z'') (ex_viewer_conn, ex_server)))
       = [(1, ViewerLeft ''z''), (1, ViewerCount 2)]"
      "b_sent (snd (b_on_message 2 [] (AnswerTo ''z'' ''sdp'') (ex_viewer_conn, ex_server)))
       = [(1, AnswerFrom (Some ''v'') ''sdp'')]"
    using t4
    by (simp_all add: ex_server_def ex_room_def ex_viewer_conn_def Map_get_def Map_size_def)
  have h: "b_sent (snd (b_on_message 2 [] (IceCandidateTo ''z'' ''cand'') (ex_viewer_conn, ex_server)))
       = [(1, IceCandidateFrom (Some ''v'') ''cand'')]"
    using t5
    by (simp add: ex_server_def ex_room_def ex_viewer_conn_def Map_get_def Map_size_def)
  show ?thesis
    using d e f g h by simp
qed

text \<open>The claim as the specification words it fails: a \<open>join-broadcast\<close> for the unknown
  broadcast \<open>ZZ\<close> arriving on socket 9 is answered with an error envelope.\<close>

theorem join_unknown_broadcast_error_reply_counterexample:
  "b_sent (snd (b_on_message 9 [] (JoinBroadcast ''ZZ'' ''q'' None) (new_conn, ex_server)))
     = [(9, Error ''Broadcast not found'')]"
  by (simp add: b_on_message_def join_broadcast_def b_send_def ex_server_def)

section \<open>Going live with viewers already waiting\<close>

lemma viewer_joined_outside_broadcasting:
  "viewRef s \<noteq> V_broadcasting \<Longrightarrow> handleSignalingMessage (ViewerJoined pid u) sdp s = s"
  by (simp add: handleSignalingMessage_def)

lemma go_live_initiates_nothing:
  "bw_peerConnections (handleGoLive s) = bw_peerConnections s"
  "set (signaled (handleGoLive s)) \<subseteq> set (signaled s) \<union> range StartBroadcast"
  by (auto simp: handleGoLive_def signaling_send_def split: option.splits if_splits)

lemma start_broadcast_sends:
  "x \<in> set (drop (length (b_sent srv)) (b_sent (snd (b_on_message w newId (StartBroadcast bid) (c, srv)))))
   \<Longrightarrow> snd x = BroadcastStarted bid
       \<and> (\<exists>room v. broadcasts srv bid = Some room \<and> v \<in> set (Map_values (viewers room)) \<and> fst x = v_ws v)"
  by (auto simp: b_on_message_def start_broadcast_def notify_viewers_def b_log_def Let_def
           split: option.splits if_splits)

text \<open>
  Claim C7 evaluated on the code. Peer \<open>p\<close> creates broadcast \<open>B1\<close> and stays in the
  broadcaster lobby; viewer \<open>v\<close> joins \<open>B1\<close> and waits in the viewer lobby; \<open>p\<close> then goes
  live. The relay sent \<open>viewer-joined\<close> for \<open>v\<close> to the broadcaster while its page was in
  the lobby, where the page discards it. On \<open>start-broadcast\<close> the relay marks the room
  live, keeps \<open>v\<close> as its viewer and sends \<open>broadcast-started\<close> to \<open>v\<close> and nothing to
  the broadcaster. The broadcaster's page, now broadcasting, has no connection toward \<open>v\<close>
  and has sent nothing but \<open>start-broadcast\<close>: no offer. The page of \<open>v\<close> shows the
  broadcast as live, its button takes it to the viewing screen, and it has no connection
  and no offer to handle.
\<close>

theorem waiting_viewer_gets_no_offer_on_go_live:
  "delivered_to 1 (b_sent (server prelive_system)) = [BroadcastCreated ''B1'', ViewerJoined ''v'' ''Vi'', ViewerCount 1]
   \<and> view prelive_page = V_broadcaster_lobby
   \<and> viewRef prelive_page = V_broadcaster_lobby
   \<and> bw_peerConnections prelive_page = []
   \<and> signaled (handleGoLive prelive_page) = [StartBroadcast ''B1'']
   \<and> map_option isLive (broadcasts (server golive_system) ''B1'') = Some True
   \<and> map_option viewers (broadcasts (server golive_system) ''B1'')
       = Some [(''v'', \<lparr>v_peerId = ''v'', v_username = ''Vi'', v_ws = 2\<rparr>)]
   \<and> drop (length (b_sent (server prelive_system))) (b_sent (server golive_system)) = [(2, BroadcastStarted ''B1'')]
   \<and> view golive_page = V_broadcasting
   \<and> viewRef golive_page = V_broadcasting
   \<and> bw_peerConnections golive_page = []
   \<and> bw_viewers golive_page = []
   \<and> signaled golive_page = [StartBroadcast ''B1'']
   \<and> delivered_to 2 (b_sent (server golive_system)) = [BroadcastInfo ''B1'' False ''Bo'', BroadcastStarted ''B1'']
   \<and> pageIsLive golive_viewer_page
   \<and> view golive_viewer_page = V_viewing
   \<and> vw_peerConnection golive_viewer_page = None
   \<and> started golive_viewer_page = []"
  by code_simp

section \<open>Deleting rooms\<close>
















section \<open>Candidates arriving while the queue is drained\<close>

text \<open>
  Claim C1 evaluated on the code. Candidates \<open>c1\<close> and \<open>c2\<close> of peer \<open>b\<close> arrive before
  its offer and are queued in this order. The offer arrives; once \<open>setRemoteDescription\<close>
  is fulfilled \<open>handleOffer\<close> hands \<open>c1\<close> to the engine and awaits it. Candidate \<open>c3\<close>
  arrives during this \<open>await\<close>: the connection has its remote description, so
  \<open>handleIceCandidate\<close> hands \<open>c3\<close> to the engine at once. Only then does the loop go on
  to \<open>c2\<close>. The candidates arrived as \<open>c1, c2, c3\<close> and are applied as \<open>c1, c3, c2\<close>; each
  is applied once, the queue is deleted and the answer is sent. The hook of the expanded
  call does the same when the description applied is the answer to its own offer.
\<close>

theorem late_candidate_overtakes_queued_candidate:
  "arrivals ''b'' (delivered overtaking_offer_run) = [''c1'', ''c2'', ''c3'']
   \<and> pending_or_empty (g_pendingCandidates (g_hook (g_async_run (take 3 overtaking_offer_run) g_async_init))) ''b''
       = [''c1'', ''c2'']
   \<and> g_calls (g_async_run (take 4 overtaking_offer_run) g_async_init)
       = [(''b'', CallSetRemoteDescription ''sdp''), (''b'', CallAddIceCandidate ''c1'')]
   \<and> g_tasks (g_async_run (take 4 overtaking_offer_run) g_async_init)
       = [AwaitCandidate ''b'' [''c2''] (Some ''ans'')]
   \<and> g_calls (g_async_run overtaking_offer_run g_async_init)
       = [(''b'', CallSetRemoteDescription ''sdp''), (''b'', CallAddIceCandidate ''c1''),
          (''b'', CallAddIceCandidate ''c3''), (''b'', CallAddIceCandidate ''c2''),
          (''b'', CallCreateAnswer), (''b'', CallSetLocalDescription ''ans'')]
   \<and> applied_of (g_peerConnections (g_hook (g_async_run overtaking_offer_run g_async_init))) ''b''
       = [''c1'', ''c3'', ''c2'']
   \<and> g_tasks (g_async_run overtaking_offer_run g_async_init) = []
   \<and> Map_get (g_pendingCandidates (g_hook (g_async_run overtaking_offer_run g_async_init))) ''b'' = None
   \<and> g_signaled (g_hook (g_async_run overtaking_offer_run g_async_init)) = [Signal answer ''b'' ''ans'']
   \<and> arrivals ''b'' (delivered overtaking_answer_run) = [''c1'', ''c2'', ''c3'']
   \<and> pending_or_empty (e_pendingCandidates (e_hook (e_async_run ex_uname (take 4 overtaking_answer_run)
                                                         (e_async_init ''me'')))) ''b''
       = [''c1'', ''c2'']
   \<and> e_calls (e_async_run ex_uname overtaking_answer_run (e_async_init ''me''))
       = [(''b'', CallSetRemoteDescription ''sdp''), (''b'', CallAddIceCandidate ''c1''),
          (''b'', CallAddIceCandidate ''c3''), (''b'', CallAddIceCandidate ''c2'')]
   \<and> applied_of (e_peerConnections (e_hook (e_async_run ex_uname overtaking_answer_run (e_async_init ''me'')))) ''b''
       = [''c1'', ''c3'', ''c2'']
   \<and> e_tasks (e_async_run ex_uname overtaking_answer_run (e_async_init ''me'')) = []
   \<and> e_errors (e_async_run ex_uname overtaking_answer_run (e_async_init ''me'')) = []
   \<and> Map_get (e_pendingCandidates (e_hook (e_async_run ex_uname overtaking_answer_run (e_async_init ''me'')))) ''b''
       = None"
  by code_simp

end
